theory Spec2Isabelle
  imports Complex_Main "HOL-Library.AList"
begin

text \<open>
  The two converters of pyNeuroML's \<open>swc\<close> package: \<open>ExportNML.NeuroMLWriter\<close>, which
  builds a segment model from a loaded SWC point tree, and \<open>ExportSWC.convert_to_swc\<close>,
  which writes a segment model back as SWC lines.  Methods are functions that take the
  object's state and return it updated; an exception is the left summand of the result.
  Calls into libNeuroML (the unbranched-group derivation, the ordered segments of a group,
  the XML writer) are parameters of the functions that make them.
\<close>

section \<open>Errors\<close>

text \<open>
  The exceptions the two converters can raise.  \<open>ExportNML.py\<close> raises only through
  Python itself: \<open>IndexError\<close> (list index), \<open>KeyError\<close> (dict lookup),
  \<open>AttributeError\<close> (attribute of \<open>None\<close>), \<open>ValueError\<close> (\<open>min()\<close> of an empty
  sequence) and \<open>RecursionError\<close> (\<open>parse_tree\<close> nested deeper than the interpreter
  allows).  \<open>ExportSWC.py\<close> raises two plain \<open>Exception\<close>s, told apart here by their
  message: the one of \<open>_get_lines_for_seg_group\<close> ("Can't handle case where a segment is not
  connected to the 0 or 1 point along the parent!") and the one of \<open>convert_to_swc\<close> ("The
  numbers of the segments in groups ... is not the same as total number of segments").
  \<open>LibraryError\<close> stands for any failure of a call into libNeuroML.
  The specification calls the \<open>ValueError\<close> of \<open>create_segment_groups\<close>
  \<open>NoSomaFoundError\<close>, and the two exceptions of the exporter
  \<open>UnsupportedAttachmentError\<close> and \<open>IncompleteGroupCoverageError\<close>.
\<close>

datatype error =
    IndexError
  | KeyError
  | AttributeError
  | ValueError
  | RecursionError
  | NotConnectedToEndException
  | SegmentCountException
  | LibraryError

section \<open>The point tree (\<open>LoadSWC.SWCNode\<close>, \<open>LoadSWC.SWCGraph\<close>)\<close>

text \<open>
  Modelled from the spec: the module \<open>LoadSWC\<close> (classes \<open>SWCNode\<close> and \<open>SWCGraph\<close>) is
  not among the sources.  A node has the fields the converter reads: \<open>id\<close> (integer \<open>\<ge> 0\<close>),
  \<open>type\<close> (integer code, 0 undefined, 1 soma, 2 axon, 3 basal dendrite, 4 apical dendrite,
  5 and above custom), \<open>x\<close>, \<open>y\<close>, \<open>z\<close>, \<open>radius\<close>, \<open>parent_id\<close> (\<open>-1\<close> for a root) and
  \<open>children\<close>, the list of child node objects in order of declaration.  Coordinates are
  Python floats; they are only copied, doubled and compared, and are reals here.
  A node object holding its children is a finitely branching tree, so a value of this type
  has no cycle among its \<open>children\<close> references.
\<close>

datatype SWCNode =
  SWCNode (swc_id: nat) (swc_type: nat) (swc_x: real) (swc_y: real) (swc_z: real)
          (swc_radius: real) (swc_parent_id: int) (swc_children: "SWCNode list")

definition UNDEFINED :: nat where "UNDEFINED = 0"
definition SOMA :: nat where "SOMA = 1"
definition AXON :: nat where "AXON = 2"
definition BASAL_DENDRITE :: nat where "BASAL_DENDRITE = 3"
definition APICAL_DENDRITE :: nat where "APICAL_DENDRITE = 4"

record SWCGraph =
  nodes :: "SWCNode list"
  metadata :: "(string \<times> string) list"

section \<open>The segment model (libNeuroML classes, as far as the converters use them)\<close>

record Point3DWithDiam =
  pt_x :: real
  pt_y :: real
  pt_z :: real
  diameter :: real

text \<open>\<open>SegmentParent(segments=...)\<close> leaves \<open>fraction_along\<close> at the library's default 1.\<close>

record SegmentParent =
  segments :: int
  fraction_along :: real

record Segment =
  seg_id :: int
  seg_name :: string
  seg_parent :: "SegmentParent option"
  seg_proximal :: "Point3DWithDiam option"
  seg_distal :: "Point3DWithDiam option"

record SegmentGroup =
  group_id :: string
  members :: "int list"

record Morphology =
  morph_id :: string
  morph_segments :: "Segment list"
  morph_segment_groups :: "SegmentGroup list"

record Cell =
  cell_id :: string
  cell_notes :: string
  morphology :: Morphology
  properties :: "(string \<times> string) list"

record NeuroMLDocument =
  doc_id :: string
  cells :: "Cell list"

section \<open>\<open>ExportNML.NeuroMLWriter\<close>\<close>

text \<open>
  The writer object.  The three dicts are association lists in insertion order
  (\<open>d[k] = v\<close> is \<open>AList.update\<close>, \<open>k in d\<close> and \<open>d[k]\<close> go through \<open>map_of\<close>);
  \<open>processed_nodes\<close> and the group members are sets.
\<close>

record NeuroMLWriter =
  points :: "SWCNode list"
  section_types :: "string list"
  morphology_origin :: string
  cell :: "Cell option"
  nml_doc :: "NeuroMLDocument option"
  point_indices_vs_seg_ids :: "(nat \<times> int) list"
  next_segment_id :: int
  processed_nodes :: "nat set"
  segment_types :: "(int \<times> nat) list"
  segment_groups :: "(string \<times> int set) list"

definition group_names :: "string list" where
  "group_names =
     [''all'', ''soma_group'', ''axon_group'', ''dendrite_group'',
      ''basal_dendrite'', ''apical_dendrite'']"

text \<open>\<open>__init__\<close>: \<open>swc_graph.metadata.get("ORIGINAL_SOURCE", "Unknown")\<close> and the empty tables.\<close>

definition init :: "SWCGraph \<Rightarrow> NeuroMLWriter" where
  "init swc_graph =
     \<lparr> points = nodes swc_graph,
       section_types =
         [''undefined'', ''soma'', ''axon'', ''basal dendrite'', ''apical dendrite''],
       morphology_origin =
         (case map_of (metadata swc_graph) ''ORIGINAL_SOURCE'' of
            None \<Rightarrow> ''Unknown'' | Some v \<Rightarrow> v),
       cell = None,
       nml_doc = None,
       point_indices_vs_seg_ids = [],
       next_segment_id = 0,
       processed_nodes = {},
       segment_types = [],
       segment_groups = map (\<lambda>g. (g, {})) group_names \<rparr>"

subsection \<open>Strings: \<open>str(int)\<close>, \<open>str.replace\<close>, \<open>str.split("/")[-1]\<close>, \<open>str.lower\<close>\<close>

definition digit_char :: "nat \<Rightarrow> char" where
  "digit_char d = ''0123456789'' ! d"

function str_nat :: "nat \<Rightarrow> string" where
  "str_nat n = (if n < 10 then [digit_char n] else str_nat (n div 10) @ [digit_char (n mod 10)])"
  by pat_completeness auto
termination
  by (relation "measure (\<lambda>n. n)") auto

declare str_nat.simps [simp del]

definition str_int :: "int \<Rightarrow> string" where
  "str_int i = (if i < 0 then ''-'' @ str_nat (nat (- i)) else str_nat (nat i))"

text \<open>\<open>s.replace(old, new)\<close> for a non-empty \<open>old\<close> (the writer passes ".swc", "." and "-").\<close>

function replace :: "string \<Rightarrow> string \<Rightarrow> string \<Rightarrow> string" where
  "replace old new [] = []"
| "replace old new (c # cs) =
     (if old \<noteq> [] \<and> take (length old) (c # cs) = old
      then new @ replace old new (drop (length old - 1) cs)
      else c # replace old new cs)"
  by pat_completeness auto
termination
  by (relation "measure (\<lambda>(old, new, s). length s)") auto

text \<open>\<open>s.split("/")[-1]\<close>: what follows the last slash.\<close>

fun last_component :: "string \<Rightarrow> string \<Rightarrow> string" where
  "last_component acc [] = acc"
| "last_component acc (c # cs) =
     (if c = CHR ''/'' then last_component [] cs else last_component (acc @ [c]) cs)"

text \<open>
  A character of a Python string is a code point; a \<open>char\<close> here is a code point below
  256, and strings with larger code points are outside the model.  On these code points
  \<open>str.isdigit\<close> is true of the ten ASCII digits and of the superscripts U+00B2, U+00B3 and
  U+00B9, and \<open>str.lower\<close> moves A to Z and U+00C0 to U+00DE (but not the sign U+00D7) up
  by 32.
\<close>

definition isdigit :: "char \<Rightarrow> bool" where
  "isdigit c = (c \<in> set ''0123456789'' \<or> (of_char c :: nat) \<in> {178, 179, 185})"

definition lower_char :: "char \<Rightarrow> char" where
  "lower_char c =
     (let n = (of_char c :: nat)
      in if (65 \<le> n \<and> n \<le> 90) \<or> (192 \<le> n \<and> n \<le> 222 \<and> n \<noteq> 215)
         then char_of (n + 32) else c)"

definition lower :: "string \<Rightarrow> string" where
  "lower s = map lower_char s"

subsection \<open>\<open>get_cell_name\<close>, \<open>create_cell\<close>\<close>

text \<open>
  The \<open>try\<close> block catches the \<open>IndexError\<close> of \<open>cell_name[0]\<close> on an empty name; by then
  \<open>cell_name\<close> has been reassigned, so the empty name is what is returned.
\<close>

definition get_cell_name :: "NeuroMLWriter \<Rightarrow> string" where
  "get_cell_name w =
     (let cell_name =
            replace ''-'' ''_''
              (replace ''.'' ''_''
                 (replace ''.swc'' '''' (last_component [] (morphology_origin w))))
      in case cell_name of
           [] \<Rightarrow> cell_name
         | c # _ \<Rightarrow> if isdigit c then ''Cell_'' @ cell_name else cell_name)"

definition create_cell :: "NeuroMLWriter \<Rightarrow> NeuroMLWriter" where
  "create_cell w =
     (let cell_name = get_cell_name w;
          notes_text =
            ''Neuronal morphology exported from Python Based Converter. Original file: ''
              @ morphology_origin w
      in w \<lparr> cell :=
               Some \<lparr> cell_id = cell_name,
                      cell_notes = notes_text,
                      morphology =
                        \<lparr> morph_id = ''morphology_'' @ cell_name,
                          morph_segments = [],
                          morph_segment_groups = [] \<rparr>,
                      properties = [] \<rparr> \<rparr>)"

subsection \<open>\<open>get_groups_for_type\<close>, \<open>add_segment_to_groups\<close>\<close>

definition get_groups_for_type :: "nat \<Rightarrow> string list" where
  "get_groups_for_type segment_type =
     [''all''] @
     (if segment_type = SOMA then [''soma_group'']
      else if segment_type = AXON then [''axon_group'']
      else if segment_type = BASAL_DENDRITE then [''basal_dendrite'', ''dendrite_group'']
      else if segment_type = APICAL_DENDRITE then [''apical_dendrite'', ''dendrite_group'']
      else if segment_type \<ge> 5 then [''dendrite_group'']
      else [])"

text \<open>The loop \<open>for group in groups: self.segment_groups[group].add(seg_id)\<close>.\<close>

fun add_to_each :: "int \<Rightarrow> string list \<Rightarrow> (string \<times> int set) list
    \<Rightarrow> error + (string \<times> int set) list" where
  "add_to_each sid [] sg = Inr sg"
| "add_to_each sid (g # gs) sg =
     (case map_of sg g of
        None \<Rightarrow> Inl KeyError
      | Some s \<Rightarrow> add_to_each sid gs (AList.update g (insert sid s) sg))"

definition add_segment_to_groups :: "int \<Rightarrow> nat \<Rightarrow> NeuroMLWriter \<Rightarrow> error + NeuroMLWriter" where
  "add_segment_to_groups sid segment_type w =
     (case add_to_each sid (get_groups_for_type segment_type) (segment_groups w) of
        Inl e \<Rightarrow> Inl e
      | Inr sg \<Rightarrow> Inr (w \<lparr> segment_groups := sg \<rparr>))"

subsection \<open>The four statements that close every segment creation\<close>

text \<open>
  \<open>self.cell.morphology.segments.append(segment)\<close>,
  \<open>self.point_indices_vs_seg_ids[point.id] = seg_id\<close>,
  \<open>self.segment_types[seg_id] = type\<close>,
  \<open>self.add_segment_to_groups(seg_id, type)\<close>:
  the same four lines, in this order, in each branch of \<open>handle_soma\<close> and at the end of
  \<open>create_segment\<close>.
\<close>

definition append_segment :: "Segment \<Rightarrow> NeuroMLWriter \<Rightarrow> error + NeuroMLWriter" where
  "append_segment segment w =
     (case cell w of
        None \<Rightarrow> Inl AttributeError
      | Some c \<Rightarrow>
          Inr (w \<lparr> cell :=
                    Some (c \<lparr> morphology :=
                               (morphology c) \<lparr> morph_segments :=
                                   morph_segments (morphology c) @ [segment] \<rparr> \<rparr>) \<rparr>))"

definition store_segment :: "Segment \<Rightarrow> nat \<Rightarrow> int \<Rightarrow> nat \<Rightarrow> NeuroMLWriter
    \<Rightarrow> error + NeuroMLWriter" where
  "store_segment segment point_id sid segment_type w =
     (case append_segment segment w of
        Inl e \<Rightarrow> Inl e
      | Inr w1 \<Rightarrow>
          add_segment_to_groups sid segment_type
            (w1 \<lparr> point_indices_vs_seg_ids :=
                     AList.update point_id sid (point_indices_vs_seg_ids w1),
                   segment_types := AList.update sid segment_type (segment_types w1) \<rparr>))"

text \<open>\<open>Point3DWithDiam(x=p.x, y=p.y, z=p.z, diameter=2 * p.radius)\<close>.\<close>

definition point_of :: "SWCNode \<Rightarrow> Point3DWithDiam" where
  "point_of p =
     \<lparr> pt_x = swc_x p, pt_y = swc_y p, pt_z = swc_z p, diameter = 2 * swc_radius p \<rparr>"

definition parent_ref :: "int \<Rightarrow> SegmentParent" where
  "parent_ref sid = \<lparr> segments = sid, fraction_along = 1 \<rparr>"

definition mark_processed :: "nat \<Rightarrow> NeuroMLWriter \<Rightarrow> NeuroMLWriter" where
  "mark_processed point_id w = w \<lparr> processed_nodes := insert point_id (processed_nodes w) \<rparr>"

subsection \<open>\<open>handle_soma\<close>\<close>

text \<open>
  The loop of the last branch, \<open>for i, current_point in enumerate(sorted_soma_points)\<close>;
  \<open>rest\<close> is what is left of the sorted list and \<open>i\<close> the index of its head.
  \<open>sorted(soma_points, key=lambda p: p.x)\<close> is stable, as \<open>sort_key\<close> is.  The test
  \<open>this_point == sorted_soma_points[0]\<close> compares node objects; it is equality of nodes
  here, which is the same for the nodes of a graph with unique ids.
\<close>

fun soma_loop :: "SWCNode list \<Rightarrow> nat \<Rightarrow> SWCNode list \<Rightarrow> NeuroMLWriter
    \<Rightarrow> error + NeuroMLWriter" where
  "soma_loop sorted_soma_points i [] w = Inr w"
| "soma_loop sorted_soma_points i (current_point # rest) w =
     (if swc_id current_point \<notin> processed_nodes w then
        (let n = next_segment_id w;
             segment =
               \<lparr> seg_id = n,
                 seg_name = ''soma_Seg_'' @ str_int n,
                 seg_parent = (if i = 0 then None else Some (parent_ref (n - 1))),
                 seg_proximal = (if i = 0 then Some (point_of current_point) else None),
                 seg_distal =
                   Some (if int i < int (length sorted_soma_points) - 1
                         then point_of (sorted_soma_points ! (i + 1))
                         else point_of current_point) \<rparr>
         in case store_segment segment (swc_id current_point) n SOMA w of
              Inl e \<Rightarrow> Inl e
            | Inr w1 \<Rightarrow>
                soma_loop sorted_soma_points (i + 1) rest
                  ((mark_processed (swc_id current_point) w1)
                     \<lparr> next_segment_id := n + 1 \<rparr>))
      else soma_loop sorted_soma_points (i + 1) rest w)"

definition soma_points_of :: "NeuroMLWriter \<Rightarrow> SWCNode list" where
  "soma_points_of w = filter (\<lambda>p. swc_type p = SOMA) (points w)"

definition handle_soma :: "SWCNode \<Rightarrow> SWCNode \<Rightarrow> NeuroMLWriter \<Rightarrow> error + NeuroMLWriter" where
  "handle_soma this_point parent_point w =
     (if swc_id this_point \<in> processed_nodes w then Inr w
      else
        let soma_points = soma_points_of w in
        if length soma_points = 3 then
          (if swc_id this_point = swc_id (soma_points ! 0) then
             (let middle_point = soma_points ! 1;
                  end_point = soma_points ! 2;
                  n = next_segment_id w;
                  segment =
                    \<lparr> seg_id = n,
                      seg_name = ''Seg_'' @ str_int n,
                      seg_parent = None,
                      seg_proximal = Some (point_of middle_point),
                      seg_distal = Some (point_of this_point) \<rparr>
              in case store_segment segment (swc_id this_point) n SOMA w of
                   Inl e \<Rightarrow> Inl e
                 | Inr w1 \<Rightarrow>
                     (let w2 = w1 \<lparr> next_segment_id := n + 1 \<rparr>;
                          m = next_segment_id w2;
                          segment2 =
                            \<lparr> seg_id = m,
                              seg_name = ''Seg_'' @ str_int m,
                              seg_parent = Some (parent_ref (m - 1)),
                              seg_proximal = None,
                              seg_distal = Some (point_of end_point) \<rparr>
                      in case store_segment segment2 (swc_id end_point) m SOMA w2 of
                           Inl e \<Rightarrow> Inl e
                         | Inr w3 \<Rightarrow>
                             Inr (mark_processed (swc_id this_point)
                                    (w3 \<lparr> next_segment_id := m + 1 \<rparr>))))
           else Inr (mark_processed (swc_id this_point) w))
        else if length soma_points = 1 then
          (let n = next_segment_id w;
               segment =
                 \<lparr> seg_id = n,
                   seg_name = ''soma_Seg_'' @ str_int n,
                   seg_parent = None,
                   seg_proximal = Some (point_of this_point),
                   seg_distal = Some (point_of this_point) \<rparr>
           in case store_segment segment (swc_id this_point) n SOMA w of
                Inl e \<Rightarrow> Inl e
              | Inr w1 \<Rightarrow>
                  Inr (mark_processed (swc_id this_point) (w1 \<lparr> next_segment_id := n + 1 \<rparr>)))
        else
          (let sorted_soma_points = sort_key swc_x soma_points in
           case sorted_soma_points of
             [] \<Rightarrow> Inl IndexError
           | first_point # _ \<Rightarrow>
               if this_point = first_point then
                 (case soma_loop sorted_soma_points 0 sorted_soma_points w of
                    Inl e \<Rightarrow> Inl e
                  | Inr w1 \<Rightarrow> Inr (mark_processed (swc_id this_point) w1))
               else Inr (mark_processed (swc_id this_point) w)))"

subsection \<open>\<open>create_segment\<close>\<close>

text \<open>The parameter \<open>new_branch\<close> is not read by the body.\<close>

definition create_segment :: "SWCNode \<Rightarrow> SWCNode \<Rightarrow> bool \<Rightarrow> NeuroMLWriter
    \<Rightarrow> error + NeuroMLWriter" where
  "create_segment this_point parent_point new_branch w0 =
     (let sid = next_segment_id w0;
          w = w0 \<lparr> next_segment_id := next_segment_id w0 + 1 \<rparr>;
          segment_type =
            (if swc_type this_point < length (section_types w)
             then section_types w ! swc_type this_point
             else ''type_'' @ str_nat (swc_type this_point));
          is_branch_point = (length (swc_children parent_point) > 1);
          is_type_change = (swc_type this_point \<noteq> swc_type parent_point);
          par =
            (case map_of (point_indices_vs_seg_ids w) (swc_id parent_point) of
               None \<Rightarrow> None
             | Some parent_seg_id \<Rightarrow> Some (parent_ref parent_seg_id));
          prox =
            (if is_type_change then Some (point_of this_point)
             else if is_branch_point then Some (point_of parent_point)
             else None);
          dist =
            (if is_type_change then
               (case swc_children this_point of
                  next_point # _ \<Rightarrow> Some (point_of next_point)
                | [] \<Rightarrow> Some (point_of this_point))
             else if is_branch_point then Some (point_of this_point)
             else if swc_id this_point \<notin> processed_nodes w then Some (point_of this_point)
             else None);
          segment =
            \<lparr> seg_id = sid,
              seg_name = segment_type @ ''_Seg_'' @ str_int sid,
              seg_parent = par,
              seg_proximal = prox,
              seg_distal = dist \<rparr>
      in case store_segment segment (swc_id this_point) sid (swc_type this_point) w of
           Inl e \<Rightarrow> Inl e
         | Inr w1 \<Rightarrow> Inr (mark_processed (swc_id this_point) w1))"

subsection \<open>\<open>parse_tree\<close>\<close>

text \<open>
  \<open>parse_children\<close> is the loop \<open>for child_point in this_point.children\<close> at the end of
  \<open>parse_tree\<close>.  \<open>if parent_point\<close> is the truth value of a node object, which is true.

  The method calls itself once for every level of the tree, and Python raises
  \<open>RecursionError\<close> when the call stack passes the interpreter's recursion limit.
  \<open>limit\<close> is the number of nested calls of \<open>parse_tree\<close> that the stack still has room for
  (each with the calls its body makes); it is a parameter, since it depends on the
  interpreter's setting and on the depth of the stack at the first call.
\<close>

function parse_tree :: "nat \<Rightarrow> SWCNode \<Rightarrow> SWCNode \<Rightarrow> NeuroMLWriter \<Rightarrow> error + NeuroMLWriter"
  and parse_children :: "nat \<Rightarrow> SWCNode \<Rightarrow> SWCNode list \<Rightarrow> NeuroMLWriter
    \<Rightarrow> error + NeuroMLWriter"
where
  "parse_tree limit parent_point this_point w =
     (if limit = 0 then Inl RecursionError
      else if swc_id this_point \<in> processed_nodes w then Inr w
      else
        let type_change = (swc_type this_point \<noteq> swc_type parent_point);
            new_branch = (length (swc_children parent_point) > 1)
        in case (if swc_type this_point = SOMA then handle_soma this_point parent_point w
                 else if swc_id this_point \<notin> processed_nodes w then
                   (case create_segment this_point parent_point (new_branch \<or> type_change) w of
                      Inl e \<Rightarrow> Inl e
                    | Inr w1 \<Rightarrow> Inr (mark_processed (swc_id this_point) w1))
                 else Inr w) of
             Inl e \<Rightarrow> Inl e
           | Inr w2 \<Rightarrow>
               parse_children (limit - 1) this_point (swc_children this_point)
                 (mark_processed (swc_id this_point) w2))"
| "parse_children limit this_point [] w = Inr w"
| "parse_children limit this_point (child_point # rest) w =
     (if swc_id child_point \<notin> processed_nodes w then
        (case parse_tree limit this_point child_point w of
           Inl e \<Rightarrow> Inl e
         | Inr w1 \<Rightarrow> parse_children limit this_point rest w1)
      else parse_children limit this_point rest w)"
  by pat_completeness auto

termination
proof (relation "measure (\<lambda>v. case v of
                   Inl (limit, parent_point, this_point, w) \<Rightarrow> size this_point
                 | Inr (limit, this_point, cs, w) \<Rightarrow> size_list size cs)", goal_cases)
  case 1
  show ?case by simp
next
  case (2 limit parent_point this_point w)
  show ?case by (cases this_point) simp
next
  case 3
  show ?case by simp
next
  case 4
  show ?case by simp
next
  case 5
  show ?case by simp
qed

declare parse_tree.simps [simp del]

subsection \<open>\<open>find_start_point\<close>\<close>

definition find_start_point :: "NeuroMLWriter \<Rightarrow> error + SWCNode" where
  "find_start_point w =
     (case filter (\<lambda>point. swc_type point = SOMA) (points w) of
        point # _ \<Rightarrow> Inr point
      | [] \<Rightarrow> (case points w of [] \<Rightarrow> Inl IndexError | point # _ \<Rightarrow> Inr point))"

subsection \<open>\<open>create_segment_groups\<close>\<close>

text \<open>The loop \<open>for group_name, members in self.segment_groups.items()\<close>.\<close>

fun build_groups :: "(string \<times> int set) list \<Rightarrow> NeuroMLWriter \<Rightarrow> error + NeuroMLWriter" where
  "build_groups [] w = Inr w"
| "build_groups ((group_name, group_members) # rest) w =
     (if group_members \<noteq> {} then
        (case cell w of
           None \<Rightarrow> Inl AttributeError
         | Some c \<Rightarrow>
             build_groups rest
               (w \<lparr> cell :=
                      Some (c \<lparr> morphology :=
                                 (morphology c) \<lparr> morph_segment_groups :=
                                     morph_segment_groups (morphology c) @
                                       [\<lparr> group_id = group_name,
                                          members = sorted_list_of_set group_members \<rparr>] \<rparr> \<rparr>) \<rparr>))
      else build_groups rest w)"

text \<open>
  \<open>min(seg_id for seg_id, seg_type in self.segment_types.items() if seg_type == SWCNode.SOMA)\<close>;
  \<open>min\<close> of an empty sequence raises \<open>ValueError\<close>.
\<close>

definition soma_segment_ids :: "NeuroMLWriter \<Rightarrow> int list" where
  "soma_segment_ids w = map fst (filter (\<lambda>(sid, seg_type). seg_type = SOMA) (segment_types w))"

definition root_segment_id :: "NeuroMLWriter \<Rightarrow> error + int" where
  "root_segment_id w =
     (case soma_segment_ids w of
        [] \<Rightarrow> Inl ValueError
      | s # ss \<Rightarrow> Inr (fold min ss s))"

text \<open>
  \<open>unbranched\<close> is libNeuroML's \<open>Cell.create_unbranched_segment_group_branches\<close>, called
  with the root segment id; it is a parameter of the model.
\<close>

definition create_segment_groups :: "(Cell \<Rightarrow> int \<Rightarrow> error + Cell) \<Rightarrow> NeuroMLWriter
    \<Rightarrow> error + NeuroMLWriter" where
  "create_segment_groups unbranched w =
     (case build_groups (segment_groups w) w of
        Inl e \<Rightarrow> Inl e
      | Inr w1 \<Rightarrow>
          (case root_segment_id w1 of
             Inl e \<Rightarrow> Inl e
           | Inr root_id \<Rightarrow>
               (case cell w1 of
                  None \<Rightarrow> Inl AttributeError
                | Some c \<Rightarrow>
                    (case unbranched c root_id of
                       Inl e \<Rightarrow> Inl e
                     | Inr c1 \<Rightarrow>
                         Inr (w1 \<lparr> cell :=
                                    Some (c1 \<lparr> properties :=
                                                properties c1 @
                                                  [(''cell_type'', ''converted_from_swc'')] \<rparr>) \<rparr>)))))"

subsection \<open>\<open>nml_string\<close>\<close>

text \<open>
  \<open>write_doc\<close> is the serialisation through \<open>neuroml.writers\<close> and a temporary file, a
  parameter of the model, and \<open>limit\<close> the room for nested calls of \<open>parse_tree\<close>.  The
  result is the returned string and the writer as the call leaves it.
\<close>

definition nml_string :: "(Cell \<Rightarrow> int \<Rightarrow> error + Cell) \<Rightarrow> (NeuroMLDocument \<Rightarrow> string)
    \<Rightarrow> nat \<Rightarrow> NeuroMLWriter \<Rightarrow> error + (string \<times> NeuroMLWriter)" where
  "nml_string unbranched write_doc limit w =
     (if length (points w) < 2 \<or> length (section_types w) < 2
         \<or> lower (section_types w ! 1) \<noteq> ''soma''
      then Inr ([], w)
      else
        let w1 = create_cell w in
        case find_start_point w1 of
          Inl e \<Rightarrow> Inl e
        | Inr start_point \<Rightarrow>
            (case parse_tree limit start_point start_point w1 of
               Inl e \<Rightarrow> Inl e
             | Inr w2 \<Rightarrow>
                 (case create_segment_groups unbranched w2 of
                    Inl e \<Rightarrow> Inl e
                  | Inr w3 \<Rightarrow>
                      (case cell w3 of
                         None \<Rightarrow> Inl AttributeError
                       | Some c \<Rightarrow>
                           (let doc = \<lparr> doc_id = cell_id c, cells = [c] \<rparr>
                            in Inr (write_doc doc, w3 \<lparr> nml_doc := Some doc \<rparr>))))))"

section \<open>\<open>ExportSWC\<close>\<close>

text \<open>
  An output line is kept as its eight fields (\<open>'%s %s %s %s %s %s %s %s'\<close>: line number,
  type, x, y, z, radius, parent line, comment) rather than as formatted text.
  The module's globals \<open>line_count\<close>, \<open>line_index_vs_distals\<close> and
  \<open>line_index_vs_proximals\<close> are the exporter state; the two dicts are association
  lists, as in the writer.  \<open>fraction_along\<close> and the tolerance \<open>0.0001\<close> are reals.
\<close>

record swc_line =
  ln_index :: int
  ln_type :: int
  ln_x :: real
  ln_y :: real
  ln_z :: real
  ln_r :: real
  ln_parent :: int
  ln_comment :: string

record exporter =
  line_count :: int
  line_index_vs_distals :: "(int \<times> int) list"
  line_index_vs_proximals :: "(int \<times> int) list"

text \<open>The block \<open>if parent_seg_id != None: ...\<close>, which finds the line of the parent.\<close>

definition parent_line_of :: "Segment \<Rightarrow> exporter \<Rightarrow> error + int" where
  "parent_line_of segment st =
     (case seg_parent segment of
        None \<Rightarrow> Inr (- 1)
      | Some p \<Rightarrow>
          (let parent_seg_id = segments p;
               fract0 = fraction_along p;
               fract1 = (if fract0 < 1 / 10000 then 0 else fract0);
               fract = (if \<bar>fract1 - 1\<bar> < 1 / 10000 then 1 else fract1)
           in if fract = 1 then
                (case map_of (line_index_vs_distals st) parent_seg_id of
                   None \<Rightarrow> Inl KeyError
                 | Some l \<Rightarrow> Inr l)
              else if fraction_along p = 0 then
                (case map_of (line_index_vs_proximals st) parent_seg_id of
                   None \<Rightarrow> Inl KeyError
                 | Some l \<Rightarrow> Inr l)
              else Inl NotConnectedToEndException))"

text \<open>The body of \<open>for segment in segs\<close>: the lines of one segment and the state after it.\<close>

definition lines_for_segment :: "int \<Rightarrow> Segment \<Rightarrow> exporter \<Rightarrow> error + (swc_line list \<times> exporter)"
  where
  "lines_for_segment type segment st =
     (case parent_line_of segment st of
        Inl e \<Rightarrow> Inl e
      | Inr parent_line0 \<Rightarrow>
          (let (lines1, parent_line, st1) =
                 (case seg_proximal segment of
                    None \<Rightarrow> ([], parent_line0, st)
                  | Some proximal \<Rightarrow>
                      ([\<lparr> ln_index = line_count st, ln_type = type,
                          ln_x = pt_x proximal, ln_y = pt_y proximal, ln_z = pt_z proximal,
                          ln_r = diameter proximal / 2, ln_parent = parent_line0,
                          ln_comment = [] \<rparr>],
                       line_count st,
                       st \<lparr> line_index_vs_proximals :=
                              AList.update (seg_id segment) (line_count st)
                                (line_index_vs_proximals st),
                            line_count := line_count st + 1 \<rparr>))
           in case seg_distal segment of
                None \<Rightarrow> Inl AttributeError
              | Some distal \<Rightarrow>
                  Inr (lines1 @
                         [\<lparr> ln_index = line_count st1, ln_type = type,
                            ln_x = pt_x distal, ln_y = pt_y distal, ln_z = pt_z distal,
                            ln_r = diameter distal / 2, ln_parent = parent_line,
                            ln_comment = [] \<rparr>],
                       st1 \<lparr> line_index_vs_distals :=
                               AList.update (seg_id segment) (line_count st1)
                                 (line_index_vs_distals st1),
                             line_count := line_count st1 + 1 \<rparr>)))"

fun lines_loop :: "int \<Rightarrow> Segment list \<Rightarrow> swc_line list \<Rightarrow> int list \<Rightarrow> exporter
    \<Rightarrow> error + (swc_line list \<times> int list \<times> exporter)" where
  "lines_loop type [] lines seg_ids st = Inr (lines, seg_ids, st)"
| "lines_loop type (segment # segs) lines seg_ids st =
     (case lines_for_segment type segment st of
        Inl e \<Rightarrow> Inl e
      | Inr (ls, st1) \<Rightarrow> lines_loop type segs (lines @ ls) (seg_ids @ [seg_id segment]) st1)"

text \<open>
  \<open>_get_lines_for_seg_group(cell, sg, type)\<close>.  \<open>ordered\<close> is libNeuroML's
  \<open>Cell.get_ordered_segments_in_groups\<close>, a parameter of the model: it returns a dict from
  group names to segment lists, or raises.
\<close>

definition get_lines_for_seg_group ::
  "(Cell \<Rightarrow> string list \<Rightarrow> error + (string \<times> Segment list) list) \<Rightarrow> Cell \<Rightarrow> string \<Rightarrow> int
    \<Rightarrow> exporter \<Rightarrow> error + (swc_line list \<times> int list \<times> exporter)" where
  "get_lines_for_seg_group ordered c sg type st =
     (case ordered c [sg] of
        Inl e \<Rightarrow> Inl e
      | Inr ord_segs \<Rightarrow>
          (case map_of ord_segs sg of
             None \<Rightarrow> Inr ([], [], st)
           | Some segs \<Rightarrow> lines_loop type segs [] [] st))"

text \<open>
  The body of \<open>for cell in nml_doc.cells\<close> in \<open>convert_to_swc\<close>.  The files are an
  association list from names to the lines written so far; \<open>open(name, 'w')\<close> leaves the
  file empty.  The file system is returned on failure too.  \<open>lines\<close> is the list that \<open>convert_to_swc\<close> creates
  once, before the loop.
\<close>

definition convert_cell ::
  "(Cell \<Rightarrow> string list \<Rightarrow> error + (string \<times> Segment list) list) \<Rightarrow> string \<Rightarrow> Cell
    \<Rightarrow> exporter \<Rightarrow> swc_line list \<Rightarrow> (string \<times> swc_line list) list
    \<Rightarrow> (string \<times> swc_line list) list \<times> (error + (exporter \<times> swc_line list))" where
  "convert_cell ordered base_dir c st lines fs =
     (let swc_file_name = base_dir @ ''/'' @ cell_id c @ ''.swc'';
          fs1 = AList.update swc_file_name [] fs
      in case get_lines_for_seg_group ordered c ''soma_group'' 1 st of
           Inl e \<Rightarrow> (fs1, Inl e)
         | Inr (lines_sg1, seg_ids1, st1) \<Rightarrow>
             (let soma_seg_count = length seg_ids1; lines1 = lines @ lines_sg1
              in case get_lines_for_seg_group ordered c ''dendrite_group'' 3 st1 of
                   Inl e \<Rightarrow> (fs1, Inl e)
                 | Inr (lines_sg2, seg_ids2, st2) \<Rightarrow>
                     (let dend_seg_count = length seg_ids2; lines2 = lines1 @ lines_sg2
                      in case get_lines_for_seg_group ordered c ''axon_group'' 2 st2 of
                           Inl e \<Rightarrow> (fs1, Inl e)
                         | Inr (lines_sg3, seg_ids3, st3) \<Rightarrow>
                             (let axon_seg_count = length seg_ids3; lines3 = lines2 @ lines_sg3
                              in if length (morph_segments (morphology c))
                                      \<noteq> soma_seg_count + dend_seg_count + axon_seg_count
                                 then (fs1, Inl SegmentCountException)
                                 else (AList.update swc_file_name lines3 fs1,
                                       Inr (st3, lines3))))))"

fun convert_cells ::
  "(Cell \<Rightarrow> string list \<Rightarrow> error + (string \<times> Segment list) list) \<Rightarrow> string \<Rightarrow> Cell list
    \<Rightarrow> exporter \<Rightarrow> swc_line list \<Rightarrow> (string \<times> swc_line list) list
    \<Rightarrow> (string \<times> swc_line list) list \<times> error option" where
  "convert_cells ordered base_dir [] st lines fs = (fs, None)"
| "convert_cells ordered base_dir (c # cs) st lines fs =
     (case convert_cell ordered base_dir c st lines fs of
        (fs1, Inl e) \<Rightarrow> (fs1, Some e)
      | (fs1, Inr (st1, lines1)) \<Rightarrow> convert_cells ordered base_dir cs st1 lines1 fs1)"

text \<open>
  \<open>convert_to_swc\<close>, from the parsed document on (reading the file is libNeuroML's):
  the globals are reset, \<open>lines\<close> starts empty.
\<close>

definition convert_to_swc ::
  "(Cell \<Rightarrow> string list \<Rightarrow> error + (string \<times> Segment list) list) \<Rightarrow> string
    \<Rightarrow> NeuroMLDocument
    \<Rightarrow> (string \<times> swc_line list) list \<Rightarrow> (string \<times> swc_line list) list \<times> error option"
  where
  "convert_to_swc ordered base_dir nml_doc_in fs =
     convert_cells ordered base_dir (cells nml_doc_in)
       \<lparr> line_count = 1, line_index_vs_distals = [], line_index_vs_proximals = [] \<rparr> [] fs"

section \<open>Predicates used in the statements\<close>

text \<open>The segments appended so far (none while there is no cell).\<close>

definition segments_of :: "NeuroMLWriter \<Rightarrow> Segment list" where
  "segments_of w = (case cell w of None \<Rightarrow> [] | Some c \<Rightarrow> morph_segments (morphology c))"

text \<open>The members recorded for a group name (empty for a name that is not a key).\<close>

definition group_members :: "NeuroMLWriter \<Rightarrow> string \<Rightarrow> int set" where
  "group_members w g = (case map_of (segment_groups w) g of None \<Rightarrow> {} | Some s \<Rightarrow> s)"

text \<open>
  The writer as \<open>nml_string\<close> hands it to the traversal: \<open>create_cell\<close> has run and the
  six group names of \<open>__init__\<close> are keys of \<open>segment_groups\<close>.
\<close>

definition groups_present :: "NeuroMLWriter \<Rightarrow> bool" where
  "groups_present w = (\<forall>g \<in> set group_names. map_of (segment_groups w) g \<noteq> None)"

definition writer_ready :: "NeuroMLWriter \<Rightarrow> bool" where
  "writer_ready w = (cell w \<noteq> None \<and> groups_present w)"

text \<open>
  What every step of the traversal keeps true of the writer: the cell and the six groups
  exist, \<open>next_segment_id\<close> is the number of segments, the segment ids count up from 0,
  a parent reference points to an earlier segment, the lookup table holds ids already given,
  \<open>segment_types\<close> has exactly the ids given as keys, and a group holds exactly the ids
  whose type qualifies for it.
\<close>

definition builder_inv :: "NeuroMLWriter \<Rightarrow> bool" where
  "builder_inv w =
     (cell w \<noteq> None
      \<and> map fst (segment_groups w) = group_names
      \<and> next_segment_id w = int (length (segments_of w))
      \<and> map seg_id (segments_of w) = map int [0 ..< length (segments_of w)]
      \<and> (\<forall>s \<in> set (segments_of w). \<forall>p. seg_parent s = Some p \<longrightarrow> segments p < seg_id s)
      \<and> (\<forall>v \<in> snd ` set (point_indices_vs_seg_ids w). v < next_segment_id w)
      \<and> fst ` set (segment_types w) = {0 ..< next_segment_id w}
      \<and> (\<forall>g \<in> set group_names.
            map_of (segment_groups w) g =
              Some {i. \<exists>t. map_of (segment_types w) i = Some t
                         \<and> g \<in> set (get_groups_for_type t)}))"

text \<open>
  The child objects of the nodes of a graph are nodes of the graph: what the loader
  builds, and what makes "no soma-typed node in the graph" cover every node the traversal
  can reach.
\<close>

definition children_closed :: "SWCGraph \<Rightarrow> bool" where
  "children_closed swc_graph =
     (\<forall>p \<in> set (nodes swc_graph). set (swc_children p) \<subseteq> set (nodes swc_graph))"

text \<open>
  The nodes below a node in the order of a depth-first walk (the node first, then the
  walks of its children in order), and the number of levels below and including a node.
\<close>

fun preorder :: "SWCNode \<Rightarrow> SWCNode list" where
  "preorder (SWCNode i t x y z r pid cs) =
     SWCNode i t x y z r pid cs # concat (map preorder cs)"

fun depth_of :: "SWCNode \<Rightarrow> nat" where
  "depth_of (SWCNode i t x y z r pid cs) = Suc (foldr max (map depth_of cs) 0)"

text \<open>The elements of a list paired with the ids \<open>n\<close>, \<open>n + 1\<close>, ... in order.\<close>

fun numbered :: "int \<Rightarrow> 'a list \<Rightarrow> (int \<times> 'a) list" where
  "numbered n [] = []"
| "numbered n (x # xs) = (n, x) # numbered (n + 1) xs"

text \<open>The group objects appended to the morphology so far (none while there is no cell).\<close>

definition groups_of :: "NeuroMLWriter \<Rightarrow> SegmentGroup list" where
  "groups_of w =
     (case cell w of None \<Rightarrow> [] | Some c \<Rightarrow> morph_segment_groups (morphology c))"

text \<open>
  What the traversal of a soma-free part of the tree adds to the writer: the nodes \<open>ps\<close>
  are marked processed, and each of them, in order, gets the next free segment id in the
  lookup table and its type under that id in \<open>segment_types\<close>; the group objects of the
  morphology are not touched.
\<close>

definition grown_by :: "NeuroMLWriter \<Rightarrow> SWCNode list \<Rightarrow> NeuroMLWriter \<Rightarrow> bool" where
  "grown_by w ps w' =
     (processed_nodes w' = processed_nodes w \<union> swc_id ` set ps
      \<and> point_indices_vs_seg_ids w' =
          point_indices_vs_seg_ids w @
            map (\<lambda>(i, p). (swc_id p, i)) (numbered (next_segment_id w) ps)
      \<and> segment_types w' =
          segment_types w @ map (\<lambda>(i, p). (i, swc_type p)) (numbered (next_segment_id w) ps)
      \<and> next_segment_id w' = next_segment_id w + int (length ps)
      \<and> groups_of w' = groups_of w)"

text \<open>
  The invariant of the traversal, with what holds besides on a tree without soma: no
  segment has the soma type, and the nodes of the lookup table are marked processed.
\<close>

definition tidy :: "NeuroMLWriter \<Rightarrow> bool" where
  "tidy w =
     (builder_inv w \<and> SOMA \<notin> snd ` set (segment_types w)
      \<and> fst ` set (point_indices_vs_seg_ids w) \<subseteq> processed_nodes w)"

text \<open>
  The chain of the many-point soma, in the words of the specification: over the soma nodes
  sorted by x, segment \<open>i\<close> has the next free id, the point of node 0 as proximal point
  (only for \<open>i = 0\<close>), the previous segment as parent (for \<open>i > 0\<close>), and as distal point
  the point of node \<open>i + 1\<close>, or of node \<open>i\<close> itself when there is no next node.
  \<open>n0\<close> is the id of the first segment of the chain.
\<close>

definition chain_segment :: "SWCNode list \<Rightarrow> int \<Rightarrow> nat \<Rightarrow> Segment" where
  "chain_segment sorted_soma_points n0 i =
     \<lparr> seg_id = n0 + int i,
       seg_name = ''soma_Seg_'' @ str_int (n0 + int i),
       seg_parent = (if i = 0 then None else Some (parent_ref (n0 + int i - 1))),
       seg_proximal = (if i = 0 then Some (point_of (sorted_soma_points ! 0)) else None),
       seg_distal =
         Some (if i + 1 < length sorted_soma_points
               then point_of (sorted_soma_points ! (i + 1))
               else point_of (sorted_soma_points ! i)) \<rparr>"

section \<open>Example trees\<close>

text \<open>
  The tree of \<open>test_case1_single_contour_soma\<close>: a three-point soma (nodes 1, 2, 3),
  a dendrite 4, 5 leaving node 1 and forking at node 5 into 6 and 7.
\<close>

definition ex_n7 :: SWCNode where "ex_n7 = SWCNode 7 3 40 (- 10) 0 2 5 []"
definition ex_n6 :: SWCNode where "ex_n6 = SWCNode 6 3 40 10 0 2 5 []"
definition ex_n5 :: SWCNode where "ex_n5 = SWCNode 5 3 30 0 0 2 4 [ex_n6, ex_n7]"
definition ex_n4 :: SWCNode where "ex_n4 = SWCNode 4 3 10 0 0 2 1 [ex_n5]"
definition ex_n3 :: SWCNode where "ex_n3 = SWCNode 3 1 0 10 0 10 1 []"
definition ex_n2 :: SWCNode where "ex_n2 = SWCNode 2 1 0 (- 10) 0 10 1 []"
definition ex_n1 :: SWCNode where "ex_n1 = SWCNode 1 1 0 0 0 10 (- 1) [ex_n2, ex_n3, ex_n4]"

definition ex_graph :: SWCGraph where
  "ex_graph = \<lparr> nodes = [ex_n1, ex_n2, ex_n3, ex_n4, ex_n5, ex_n6, ex_n7], metadata = [] \<rparr>"

definition ex_writer :: NeuroMLWriter where
  "ex_writer = create_cell (init ex_graph)"

text \<open>The writer after the traversal of that tree from node 1.\<close>

definition ex_built :: NeuroMLWriter where
  "ex_built = projr (parse_tree 1000 ex_n1 ex_n1 ex_writer)"

text \<open>A three-point soma with a dendrite point on its second node.\<close>

definition mid_n4 :: SWCNode where "mid_n4 = SWCNode 4 3 0 (- 20) 0 2 2 []"
definition mid_n3 :: SWCNode where "mid_n3 = SWCNode 3 1 0 10 0 10 1 []"
definition mid_n2 :: SWCNode where "mid_n2 = SWCNode 2 1 0 (- 10) 0 10 1 [mid_n4]"
definition mid_n1 :: SWCNode where "mid_n1 = SWCNode 1 1 0 0 0 10 (- 1) [mid_n2, mid_n3]"

definition mid_graph :: SWCGraph where
  "mid_graph = \<lparr> nodes = [mid_n1, mid_n2, mid_n3, mid_n4], metadata = [] \<rparr>"

text \<open>The tree of \<open>test_case2_no_soma\<close>: six axon points, no soma.\<close>

definition ax_n6 :: SWCNode where "ax_n6 = SWCNode 6 2 0 (- 30) 0 2 5 []"
definition ax_n5 :: SWCNode where "ax_n5 = SWCNode 5 2 0 (- 20) 0 2 1 [ax_n6]"
definition ax_n4 :: SWCNode where "ax_n4 = SWCNode 4 2 0 30 0 2 3 []"
definition ax_n3 :: SWCNode where "ax_n3 = SWCNode 3 2 0 20 0 2 1 [ax_n4]"
definition ax_n2 :: SWCNode where "ax_n2 = SWCNode 2 2 20 0 0 2 1 []"
definition ax_n1 :: SWCNode where "ax_n1 = SWCNode 1 2 0 0 0 2 (- 1) [ax_n2, ax_n3, ax_n5]"

definition ax_graph :: SWCGraph where
  "ax_graph = \<lparr> nodes = [ax_n1, ax_n2, ax_n3, ax_n4, ax_n5, ax_n6], metadata = [] \<rparr>"

text \<open>A graph of a single axon point.\<close>

definition one_graph :: SWCGraph where
  "one_graph = \<lparr> nodes = [SWCNode 1 2 0 0 0 2 (- 1) []], metadata = [] \<rparr>"

text \<open>
  A soma traced as a contour of four points, all attached to the first, with one dendrite
  point on node 1.
\<close>

definition con_n5 :: SWCNode where "con_n5 = SWCNode 5 3 0 4 0 1 1 []"
definition con_n4 :: SWCNode where "con_n4 = SWCNode 4 1 1 (- 1) 0 5 1 []"
definition con_n3 :: SWCNode where "con_n3 = SWCNode 3 1 2 0 0 5 1 []"
definition con_n2 :: SWCNode where "con_n2 = SWCNode 2 1 1 1 0 5 1 []"
definition con_n1 :: SWCNode where "con_n1 = SWCNode 1 1 0 0 0 5 (- 1) [con_n2, con_n3, con_n4, con_n5]"

definition con_graph :: SWCGraph where
  "con_graph = \<lparr> nodes = [con_n1, con_n2, con_n3, con_n4, con_n5], metadata = [] \<rparr>"

definition con_writer :: NeuroMLWriter where
  "con_writer = create_cell (init con_graph)"

text \<open>
  The same kind of contour, but the first soma point of the file has the highest x: the
  lowest-x soma point is node 2.
\<close>

definition far_n4 :: SWCNode where "far_n4 = SWCNode 4 1 2 0 0 5 1 []"
definition far_n3 :: SWCNode where "far_n3 = SWCNode 3 1 1 0 0 5 1 []"
definition far_n2 :: SWCNode where "far_n2 = SWCNode 2 1 0 0 0 5 1 []"
definition far_n1 :: SWCNode where "far_n1 = SWCNode 1 1 5 0 0 5 (- 1) [far_n2, far_n3, far_n4]"

definition far_graph :: SWCGraph where
  "far_graph = \<lparr> nodes = [far_n1, far_n2, far_n3, far_n4], metadata = [] \<rparr>"

definition far_writer :: NeuroMLWriter where
  "far_writer = create_cell (init far_graph)"

section \<open>The library call of the exporter, and example cells\<close>

text \<open>
  Modelled from the spec: libNeuroML's \<open>Cell.get_ordered_segments_in_groups\<close> is not among
  the sources (the specification names the library as an external collaborator that hands
  out the segments of a group in order).  The functions of the exporter take the call as a
  parameter; this definition is what the example documents below are run with.  It follows
  the library for groups that list their members directly: every member id of every group
  of the cell is looked up among the segments (\<open>KeyError\<close> for an id without segment, also in
  a group that was not asked for), and the segments of a requested group are sorted by id.
\<close>

fun resolve_members :: "(int \<times> Segment) list \<Rightarrow> int list \<Rightarrow> error + Segment list" where
  "resolve_members segs [] = Inr []"
| "resolve_members segs (m # ms) =
     (case map_of segs m of
        None \<Rightarrow> Inl KeyError
      | Some s \<Rightarrow>
          (case resolve_members segs ms of
             Inl e \<Rightarrow> Inl e
           | Inr ss \<Rightarrow> Inr (s # ss)))"

fun ordered_groups :: "(int \<times> Segment) list \<Rightarrow> string list \<Rightarrow> SegmentGroup list
    \<Rightarrow> (string \<times> Segment list) list \<Rightarrow> error + (string \<times> Segment list) list" where
  "ordered_groups segs group_list [] acc = Inr acc"
| "ordered_groups segs group_list (sg # sgs) acc =
     (case resolve_members segs (members sg) of
        Inl e \<Rightarrow> Inl e
      | Inr ss \<Rightarrow>
          ordered_groups segs group_list sgs
            (if group_id sg \<in> set group_list
             then AList.update (group_id sg) (sort_key seg_id ss) acc
             else acc))"

definition get_ordered_segments_in_groups ::
  "Cell \<Rightarrow> string list \<Rightarrow> error + (string \<times> Segment list) list" where
  "get_ordered_segments_in_groups c group_list =
     ordered_groups (rev (map (\<lambda>s. (seg_id s, s)) (morph_segments (morphology c))))
       group_list (morph_segment_groups (morphology c)) []"

definition exp_soma :: Segment where
  "exp_soma =
     \<lparr> seg_id = 0, seg_name = ''soma'', seg_parent = None,
       seg_proximal = Some \<lparr> pt_x = 0, pt_y = 0, pt_z = 0, diameter = 20 \<rparr>,
       seg_distal = Some \<lparr> pt_x = 10, pt_y = 0, pt_z = 0, diameter = 20 \<rparr> \<rparr>"

text \<open>A dendrite segment on segment 0, attached at the given fraction along it.\<close>

definition exp_dend :: "real \<Rightarrow> Segment" where
  "exp_dend fract =
     \<lparr> seg_id = 1, seg_name = ''dend'',
       seg_parent = Some \<lparr> segments = 0, fraction_along = fract \<rparr>,
       seg_proximal = None,
       seg_distal = Some \<lparr> pt_x = 20, pt_y = 0, pt_z = 0, diameter = 4 \<rparr> \<rparr>"

text \<open>A segment of undefined type: the builder puts such a segment into \<open>all\<close> only.\<close>

definition exp_undefined :: Segment where
  "exp_undefined =
     \<lparr> seg_id = 2, seg_name = ''undefined'',
       seg_parent = Some \<lparr> segments = 0, fraction_along = 1 \<rparr>,
       seg_proximal = None,
       seg_distal = Some \<lparr> pt_x = 10, pt_y = 5, pt_z = 0, diameter = 2 \<rparr> \<rparr>"

text \<open>
  A cell over the given segments: \<open>all\<close> lists every segment, \<open>soma_group\<close> segment 0 and
  \<open>dendrite_group\<close> segment 1, so every member has its segment when the list starts with
  segments 0 and 1.
\<close>

definition exp_cell :: "string \<Rightarrow> Segment list \<Rightarrow> Cell" where
  "exp_cell name segs =
     \<lparr> cell_id = name, cell_notes = [],
       morphology =
         \<lparr> morph_id = ''m'', morph_segments = segs,
           morph_segment_groups =
             [\<lparr> group_id = ''all'', members = map seg_id segs \<rparr>,
              \<lparr> group_id = ''soma_group'', members = [0] \<rparr>,
              \<lparr> group_id = ''dendrite_group'', members = [1] \<rparr>] \<rparr>,
       properties = [] \<rparr>"

definition exp_doc :: "Cell list \<Rightarrow> NeuroMLDocument" where
  "exp_doc cs = \<lparr> doc_id = ''d'', cells = cs \<rparr>"

section \<open>Properties of the builder\<close>

subsection \<open>Storing a segment\<close>

lemma add_to_each_Inr:
  "add_to_each sid gs sg = Inr sg' \<Longrightarrow>
     map fst sg' = map fst sg \<and>
     (\<forall>g. map_of sg' g = (if g \<in> set gs then map_option (insert sid) (map_of sg g) else map_of sg g))"
proof (induction gs arbitrary: sg)
  case Nil
  then show ?case by simp
next
  case (Cons g gs)
  from Cons.prems obtain s where s: "map_of sg g = Some s"
    and rest: "add_to_each sid gs (AList.update g (insert sid s) sg) = Inr sg'"
    by (auto split: option.splits)
  from s have key: "g \<in> fst ` set sg" by (metis domI dom_map_of_conv_image_fst)
  have keys: "map fst (AList.update g (insert sid s) sg) = map fst sg"
    using key by (simp add: update_keys)
  from Cons.IH [OF rest] keys s show ?case
    by (auto simp: update_conv')
qed

lemma add_to_each_ok:
  "\<forall>g \<in> set gs. map_of sg g \<noteq> None \<Longrightarrow> \<exists>sg'. add_to_each sid gs sg = Inr sg'"
proof (induction gs arbitrary: sg)
  case Nil
  then show ?case by simp
next
  case (Cons g gs)
  then obtain s where s: "map_of sg g = Some s" by auto
  have "\<forall>h \<in> set gs. map_of (AList.update g (insert sid s) sg) h \<noteq> None"
    using Cons.prems by (simp add: update_conv')
  from Cons.IH [OF this] s show ?case by simp
qed

lemma get_groups_in_names: "set (get_groups_for_type t) \<subseteq> set group_names"
  by (auto simp: get_groups_for_type_def group_names_def)

lemma store_segment_Inr:
  assumes "store_segment seg pid sid t w = Inr w'"
  shows "\<exists>c. cell w = Some c \<and>
           cell w' = Some (c \<lparr> morphology := (morphology c) \<lparr> morph_segments :=
                                   morph_segments (morphology c) @ [seg] \<rparr> \<rparr>)"
    and "point_indices_vs_seg_ids w' = AList.update pid sid (point_indices_vs_seg_ids w)"
    and "segment_types w' = AList.update sid t (segment_types w)"
    and "map fst (segment_groups w') = map fst (segment_groups w)"
    and "\<And>g. map_of (segment_groups w') g =
                  (if g \<in> set (get_groups_for_type t)
                   then map_option (insert sid) (map_of (segment_groups w) g)
                   else map_of (segment_groups w) g)"
    and "points w' = points w"
    and "section_types w' = section_types w"
    and "next_segment_id w' = next_segment_id w"
    and "processed_nodes w' = processed_nodes w"
  using assms
  by (auto simp: store_segment_def append_segment_def add_segment_to_groups_def
           split: option.splits sum.splits dest!: add_to_each_Inr)

lemma store_segment_segments_of:
  assumes "store_segment seg pid sid t w = Inr w'"
  shows "segments_of w' = segments_of w @ [seg]"
  using store_segment_Inr(1) [OF assms] by (auto simp: segments_of_def)

lemma store_segment_ready:
  assumes "store_segment seg pid sid t w = Inr w'" and "writer_ready w"
  shows "writer_ready w'"
proof -
  from store_segment_Inr(1) [OF assms(1)] have "cell w' \<noteq> None" by auto
  moreover have "groups_present w'"
    using assms(2) store_segment_Inr(5) [OF assms(1)]
    by (auto simp: groups_present_def writer_ready_def)
  ultimately show ?thesis by (simp add: writer_ready_def)
qed

lemma store_segment_ok:
  assumes "writer_ready w"
  shows "\<exists>w'. store_segment seg pid sid t w = Inr w'"
proof -
  from assms obtain c where c: "cell w = Some c" by (auto simp: writer_ready_def)
  have "\<forall>g \<in> set (get_groups_for_type t). map_of (segment_groups w) g \<noteq> None"
    using assms get_groups_in_names [of t] by (auto simp: writer_ready_def groups_present_def)
  from add_to_each_ok [OF this, of sid] obtain sg' where
    "add_to_each sid (get_groups_for_type t) (segment_groups w) = Inr sg'" by blast
  with c show ?thesis
    by (simp add: store_segment_def append_segment_def add_segment_to_groups_def)
qed

lemma writer_ready_next [simp]:
  "writer_ready (w \<lparr> next_segment_id := n \<rparr>) = writer_ready w"
  by (simp add: writer_ready_def groups_present_def)

lemma writer_ready_mark [simp]:
  "writer_ready (mark_processed i w) = writer_ready w"
  by (simp add: writer_ready_def groups_present_def mark_processed_def)

lemma segments_of_next [simp]:
  "segments_of (w \<lparr> next_segment_id := n \<rparr>) = segments_of w"
  by (simp add: segments_of_def)

lemma segments_of_mark [simp]:
  "segments_of (mark_processed i w) = segments_of w"
  by (simp add: segments_of_def mark_processed_def)

subsection \<open>The three-point soma\<close>

lemma soma_points_of_next [simp]:
  "soma_points_of (w \<lparr> next_segment_id := n \<rparr>) = soma_points_of w"
  by (simp add: soma_points_of_def)

lemma soma_points_of_mark [simp]:
  "soma_points_of (mark_processed i w) = soma_points_of w"
  by (simp add: soma_points_of_def mark_processed_def)

lemma processed_nodes_mark [simp]:
  "processed_nodes (mark_processed i w) = insert i (processed_nodes w)"
  by (simp add: mark_processed_def)

lemma store_segment_soma_points:
  "store_segment seg pid sid t w = Inr w' \<Longrightarrow> soma_points_of w' = soma_points_of w"
  by (simp add: soma_points_of_def store_segment_Inr(6))

lemma groups_for_soma: "get_groups_for_type SOMA = [''all'', ''soma_group'']"
  by (simp add: get_groups_for_type_def)

lemma store_segment_members:
  assumes "store_segment seg pid sid SOMA w = Inr w'" and "writer_ready w"
  shows "group_members w' ''all'' = insert sid (group_members w ''all'')"
    and "group_members w' ''soma_group'' = insert sid (group_members w ''soma_group'')"
    and "g \<noteq> ''all'' \<Longrightarrow> g \<noteq> ''soma_group'' \<Longrightarrow> group_members w' g = group_members w g"
proof -
  note m = store_segment_Inr(5) [OF assms(1)]
  have present: "map_of (segment_groups w) ''all'' \<noteq> None"
    "map_of (segment_groups w) ''soma_group'' \<noteq> None"
    using assms(2) by (auto simp: writer_ready_def groups_present_def group_names_def)
  show "group_members w' ''all'' = insert sid (group_members w ''all'')"
    using present(1) by (auto simp: group_members_def m groups_for_soma)
  show "group_members w' ''soma_group'' = insert sid (group_members w ''soma_group'')"
    using present(2) by (auto simp: group_members_def m groups_for_soma)
  show "g \<noteq> ''all'' \<Longrightarrow> g \<noteq> ''soma_group'' \<Longrightarrow> group_members w' g = group_members w g"
    by (simp add: group_members_def m groups_for_soma)
qed

lemma group_members_next [simp]:
  "group_members (w \<lparr> next_segment_id := n \<rparr>) g = group_members w g"
  by (simp add: group_members_def)

lemma group_members_mark [simp]:
  "group_members (mark_processed i w) g = group_members w g"
  by (simp add: group_members_def mark_processed_def)

text \<open>
  C1.  When the points hold exactly three soma nodes \<open>p1\<close>, \<open>p2\<close>, \<open>p3\<close> (in file
  order), \<open>handle_soma\<close> on \<open>p1\<close> appends exactly two segments.  The first has the next free
  id \<open>n\<close>, no parent, the coordinates of \<open>p2\<close> and twice its radius as proximal point and
  those of \<open>p1\<close> as distal point.  The second has the id \<open>n + 1\<close>, the first as parent, no
  proximal point, and the coordinates of \<open>p3\<close> and twice its radius as distal point.  Both
  ids are recorded as soma segments: in \<open>segment_types\<close>, in the groups \<open>all\<close> and
  \<open>soma_group\<close> and in no other group; the lookup table maps \<open>p1\<close> to the first and \<open>p3\<close>
  to the second; the counter moves on by two and \<open>p1\<close> is marked processed.
  \<open>handle_soma\<close> on \<open>p2\<close> or \<open>p3\<close>, in any writer state \<open>v\<close> over the same points, marks
  the node processed and changes nothing else.
\<close>

theorem handle_soma_three_points:
  assumes "writer_ready w"
    and "soma_points_of w = [p1, p2, p3]"
    and "swc_id p1 \<notin> processed_nodes w"
    and "distinct [swc_id p1, swc_id p2, swc_id p3]"
    and "soma_points_of v = [p1, p2, p3]"
    and "q = p2 \<or> q = p3"
    and "swc_id q \<notin> processed_nodes v"
  shows "(\<exists>w'. handle_soma p1 parent_point w = Inr w'
            \<and> segments_of w' = segments_of w @
                  [\<lparr> seg_id = next_segment_id w,
                     seg_name = ''Seg_'' @ str_int (next_segment_id w),
                     seg_parent = None,
                     seg_proximal =
                       Some \<lparr> pt_x = swc_x p2, pt_y = swc_y p2, pt_z = swc_z p2,
                              diameter = 2 * swc_radius p2 \<rparr>,
                     seg_distal =
                       Some \<lparr> pt_x = swc_x p1, pt_y = swc_y p1, pt_z = swc_z p1,
                              diameter = 2 * swc_radius p1 \<rparr> \<rparr>,
                   \<lparr> seg_id = next_segment_id w + 1,
                     seg_name = ''Seg_'' @ str_int (next_segment_id w + 1),
                     seg_parent =
                       Some \<lparr> segments = next_segment_id w, fraction_along = 1 \<rparr>,
                     seg_proximal = None,
                     seg_distal =
                       Some \<lparr> pt_x = swc_x p3, pt_y = swc_y p3, pt_z = swc_z p3,
                              diameter = 2 * swc_radius p3 \<rparr> \<rparr>]
            \<and> processed_nodes w' = insert (swc_id p1) (processed_nodes w)
            \<and> next_segment_id w' = next_segment_id w + 2
            \<and> point_indices_vs_seg_ids w' =
                  AList.update (swc_id p3) (next_segment_id w + 1)
                    (AList.update (swc_id p1) (next_segment_id w) (point_indices_vs_seg_ids w))
            \<and> segment_types w' =
                  AList.update (next_segment_id w + 1) SOMA
                    (AList.update (next_segment_id w) SOMA (segment_types w))
            \<and> group_members w' ''all'' =
                  insert (next_segment_id w + 1)
                    (insert (next_segment_id w) (group_members w ''all''))
            \<and> group_members w' ''soma_group'' =
                  insert (next_segment_id w + 1)
                    (insert (next_segment_id w) (group_members w ''soma_group''))
            \<and> group_members w' ''axon_group'' = group_members w ''axon_group''
            \<and> group_members w' ''dendrite_group'' = group_members w ''dendrite_group''
            \<and> group_members w' ''basal_dendrite'' = group_members w ''basal_dendrite''
            \<and> group_members w' ''apical_dendrite'' = group_members w ''apical_dendrite'')
         \<and> handle_soma q parent_point v
               = Inr (v \<lparr> processed_nodes := insert (swc_id q) (processed_nodes v) \<rparr>)"
proof -
  let ?n = "next_segment_id w"
  let ?A = "\<lparr> seg_id = ?n, seg_name = ''Seg_'' @ str_int ?n, seg_parent = None,
               seg_proximal = Some (point_of p2), seg_distal = Some (point_of p1) \<rparr>"
  let ?B = "\<lparr> seg_id = ?n + 1, seg_name = ''Seg_'' @ str_int (?n + 1),
               seg_parent = Some (parent_ref ?n),
               seg_proximal = None, seg_distal = Some (point_of p3) \<rparr>"
  from store_segment_ok [OF assms(1)] obtain w1 where
    w1: "store_segment ?A (swc_id p1) ?n SOMA w = Inr w1" by blast
  let ?w2 = "w1 \<lparr> next_segment_id := ?n + 1 \<rparr>"
  have ready2: "writer_ready ?w2"
    using store_segment_ready [OF w1 assms(1)] by simp
  from store_segment_ok [OF ready2] obtain w3 where
    w3: "store_segment ?B (swc_id p3) (?n + 1) SOMA ?w2 = Inr w3" by blast
  let ?w' = "mark_processed (swc_id p1) (w3 \<lparr> next_segment_id := ?n + 1 + 1 \<rparr>)"
  have run: "handle_soma p1 parent_point w = Inr ?w'"
    using w1 w3 assms(2,3) by (simp add: handle_soma_def Let_def)
  have segs: "segments_of ?w' = segments_of w @ [?A, ?B]"
    using store_segment_segments_of [OF w1] store_segment_segments_of [OF w3] by simp
  have proc: "processed_nodes ?w' = insert (swc_id p1) (processed_nodes w)"
    using store_segment_Inr(9) [OF w1] store_segment_Inr(9) [OF w3] by simp
  have nxt: "next_segment_id ?w' = ?n + 2" by (simp add: mark_processed_def)
  have table: "point_indices_vs_seg_ids ?w' =
                 AList.update (swc_id p3) (?n + 1)
                   (AList.update (swc_id p1) ?n (point_indices_vs_seg_ids w))"
    using store_segment_Inr(2) [OF w1] store_segment_Inr(2) [OF w3]
    by (simp add: mark_processed_def)
  have types: "segment_types ?w' =
                 AList.update (?n + 1) SOMA (AList.update ?n SOMA (segment_types w))"
    using store_segment_Inr(3) [OF w1] store_segment_Inr(3) [OF w3]
    by (simp add: mark_processed_def)
  have g_all: "group_members ?w' ''all'' = insert (?n + 1) (insert ?n (group_members w ''all''))"
    using store_segment_members(1) [OF w1 assms(1)] store_segment_members(1) [OF w3 ready2]
    by simp
  have g_soma: "group_members ?w' ''soma_group''
                  = insert (?n + 1) (insert ?n (group_members w ''soma_group''))"
    using store_segment_members(2) [OF w1 assms(1)] store_segment_members(2) [OF w3 ready2]
    by simp
  have g_other: "\<And>g. g \<noteq> ''all'' \<Longrightarrow> g \<noteq> ''soma_group'' \<Longrightarrow>
                   group_members ?w' g = group_members w g"
    using store_segment_members(3) [OF w1 assms(1)] store_segment_members(3) [OF w3 ready2]
    by simp
  have other: "handle_soma q parent_point v
                 = Inr (v \<lparr> processed_nodes := insert (swc_id q) (processed_nodes v) \<rparr>)"
    using assms(4,5,6,7) by (auto simp: handle_soma_def Let_def mark_processed_def)
  have first: "\<exists>w'. handle_soma p1 parent_point w = Inr w'
            \<and> segments_of w' = segments_of w @ [?A, ?B]
            \<and> processed_nodes w' = insert (swc_id p1) (processed_nodes w)
            \<and> next_segment_id w' = ?n + 2
            \<and> point_indices_vs_seg_ids w' =
                  AList.update (swc_id p3) (?n + 1)
                    (AList.update (swc_id p1) ?n (point_indices_vs_seg_ids w))
            \<and> segment_types w' =
                  AList.update (?n + 1) SOMA (AList.update ?n SOMA (segment_types w))
            \<and> group_members w' ''all'' = insert (?n + 1) (insert ?n (group_members w ''all''))
            \<and> group_members w' ''soma_group''
                  = insert (?n + 1) (insert ?n (group_members w ''soma_group''))
            \<and> group_members w' ''axon_group'' = group_members w ''axon_group''
            \<and> group_members w' ''dendrite_group'' = group_members w ''dendrite_group''
            \<and> group_members w' ''basal_dendrite'' = group_members w ''basal_dendrite''
            \<and> group_members w' ''apical_dendrite'' = group_members w ''apical_dendrite''"
    using run segs proc nxt table types g_all g_soma
      g_other [of "''axon_group''"] g_other [of "''dendrite_group''"]
      g_other [of "''basal_dendrite''"] g_other [of "''apical_dendrite''"]
    by (intro exI [of _ ?w']) simp
  from first other show ?thesis by (simp add: point_of_def parent_ref_def)
qed

theorem handle_soma_three_points_witness:
  "writer_ready ex_writer
   \<and> soma_points_of ex_writer = [ex_n1, ex_n2, ex_n3]
   \<and> swc_id ex_n1 \<notin> processed_nodes ex_writer
   \<and> distinct [swc_id ex_n1, swc_id ex_n2, swc_id ex_n3]
   \<and> (\<exists>w'. handle_soma ex_n1 ex_n1 ex_writer = Inr w'
          \<and> segments_of w' =
                [\<lparr> seg_id = 0, seg_name = ''Seg_0'', seg_parent = None,
                   seg_proximal = Some \<lparr> pt_x = 0, pt_y = - 10, pt_z = 0, diameter = 20 \<rparr>,
                   seg_distal = Some \<lparr> pt_x = 0, pt_y = 0, pt_z = 0, diameter = 20 \<rparr> \<rparr>,
                 \<lparr> seg_id = 1, seg_name = ''Seg_1'',
                   seg_parent = Some \<lparr> segments = 0, fraction_along = 1 \<rparr>,
                   seg_proximal = None,
                   seg_distal = Some \<lparr> pt_x = 0, pt_y = 10, pt_z = 0, diameter = 20 \<rparr> \<rparr>]
          \<and> processed_nodes w' = {1}
          \<and> next_segment_id w' = 2
          \<and> point_indices_vs_seg_ids w' = [(1, 0), (3, 1)]
          \<and> segment_types w' = [(0, 1), (1, 1)]
          \<and> group_members w' ''all'' = {1, 0}
          \<and> group_members w' ''soma_group'' = {1, 0}
          \<and> group_members w' ''dendrite_group'' = {})
   \<and> handle_soma ex_n2 ex_n1 ex_writer
       = Inr (ex_writer \<lparr> processed_nodes := {2} \<rparr>)"
proof -
  have ready: "writer_ready ex_writer" by code_simp
  have somas: "soma_points_of ex_writer = [ex_n1, ex_n2, ex_n3]" by code_simp
  have fresh1: "swc_id ex_n1 \<notin> processed_nodes ex_writer" by code_simp
  have ids: "distinct [swc_id ex_n1, swc_id ex_n2, swc_id ex_n3]" by code_simp
  have fresh2: "swc_id ex_n2 \<notin> processed_nodes ex_writer" by code_simp
  have start: "next_segment_id ex_writer = 0" "segments_of ex_writer = []"
    "processed_nodes ex_writer = {}" "str_int 0 = ''0''" "str_int 1 = ''1''"
    "point_indices_vs_seg_ids ex_writer = []" "segment_types ex_writer = []"
    "group_members ex_writer ''all'' = {}" "group_members ex_writer ''soma_group'' = {}"
    "group_members ex_writer ''dendrite_group'' = {}"
    by code_simp+
  have coords: "swc_x ex_n1 = 0" "swc_y ex_n1 = 0" "swc_z ex_n1 = 0" "swc_radius ex_n1 = 10"
    "swc_x ex_n2 = 0" "swc_y ex_n2 = - 10" "swc_z ex_n2 = 0" "swc_radius ex_n2 = 10"
    "swc_x ex_n3 = 0" "swc_y ex_n3 = 10" "swc_z ex_n3 = 0" "swc_radius ex_n3 = 10"
    "swc_id ex_n1 = 1" "swc_id ex_n2 = 2" "swc_id ex_n3 = 3"
    by (simp_all add: ex_n1_def ex_n2_def ex_n3_def)
  from handle_soma_three_points [OF ready somas fresh1 ids somas _ fresh2, of ex_n1]
  show ?thesis using ready somas fresh1 ids
    by (simp add: start coords SOMA_def) blast
qed

subsection \<open>The many-point soma\<close>

lemma soma_loop_chain:
  assumes "writer_ready w"
    and "distinct (map swc_id rest)"
    and "\<forall>p \<in> set rest. swc_id p \<notin> processed_nodes w"
  shows "\<exists>w'. soma_loop (pre @ rest) (length pre) rest w = Inr w'
           \<and> segments_of w' = segments_of w @
                 map (chain_segment (pre @ rest) (next_segment_id w - int (length pre)))
                     [length pre ..< length pre + length rest]
           \<and> processed_nodes w' = processed_nodes w \<union> swc_id ` set rest
           \<and> next_segment_id w' = next_segment_id w + int (length rest)"
  using assms
proof (induction rest arbitrary: pre w)
  case Nil
  then show ?case by simp
next
  case (Cons cur rest)
  let ?sorted = "pre @ cur # rest"
  let ?i = "length pre"
  let ?n = "next_segment_id w"
  let ?seg = "chain_segment ?sorted (?n - int ?i) ?i"
  from store_segment_ok [OF Cons.prems(1)] obtain w1 where
    w1: "store_segment ?seg (swc_id cur) ?n SOMA w = Inr w1" by blast
  let ?w2 = "(mark_processed (swc_id cur) w1) \<lparr> next_segment_id := ?n + 1 \<rparr>"
  have ready2: "writer_ready ?w2"
    using store_segment_ready [OF w1 Cons.prems(1)] by simp
  have proc2: "processed_nodes ?w2 = insert (swc_id cur) (processed_nodes w)"
    using store_segment_Inr(9) [OF w1] by simp
  have fresh2: "\<forall>p \<in> set rest. swc_id p \<notin> processed_nodes ?w2"
    using Cons.prems(2,3) proc2 by (auto simp: image_iff)
  have dist2: "distinct (map swc_id rest)" using Cons.prems(2) by simp
  from Cons.IH [OF ready2 dist2 fresh2, of "pre @ [cur]"] obtain w' where
    loop: "soma_loop ?sorted (Suc ?i) rest ?w2 = Inr w'"
    and segs: "segments_of w' = segments_of ?w2 @
                 map (chain_segment ?sorted (?n + 1 - int (Suc ?i)))
                     [Suc ?i ..< Suc ?i + length rest]"
    and proc: "processed_nodes w' = processed_nodes ?w2 \<union> swc_id ` set rest"
    and nxt: "next_segment_id w' = ?n + 1 + int (length rest)"
    by auto
  have seg_eq: "?seg =
      \<lparr> seg_id = ?n,
        seg_name = ''soma_Seg_'' @ str_int ?n,
        seg_parent = (if ?i = 0 then None else Some (parent_ref (?n - 1))),
        seg_proximal = (if ?i = 0 then Some (point_of cur) else None),
        seg_distal =
          Some (if int ?i < int (length ?sorted) - 1
                then point_of (?sorted ! (?i + 1))
                else point_of cur) \<rparr>"
    by (auto simp: chain_segment_def)
  have run: "soma_loop ?sorted ?i (cur # rest) w = Inr w'"
    using Cons.prems(3) w1 loop unfolding seg_eq by (simp add: Let_def)
  have segs': "segments_of w' = segments_of w @
                 map (chain_segment ?sorted (?n - int ?i)) [?i ..< ?i + length (cur # rest)]"
  proof -
    have upt: "[?i ..< ?i + length (cur # rest)] = ?i # [Suc ?i ..< Suc ?i + length rest]"
      by (simp del: upt_Suc add: upt_conv_Cons)
    have shift: "?n + 1 - int (Suc ?i) = ?n - int ?i" by simp
    have "segments_of ?w2 = segments_of w @ [?seg]"
      using store_segment_segments_of [OF w1] by simp
    with segs show ?thesis unfolding upt shift by simp
  qed
  from run segs' proc proc2 nxt show ?case by auto
qed

lemma distinct_map_insort_key:
  "distinct (map g (insort_key f x xs)) = (g x \<notin> g ` set xs \<and> distinct (map g xs))"
  by (induction xs) (auto simp: set_insort_key)

lemma distinct_map_sort_key:
  "distinct (map g (sort_key f xs)) = distinct (map g xs)"
  by (induction xs) (auto simp: distinct_map_insort_key)

text \<open>
  What the last branch of \<open>handle_soma\<close> does when it starts on a clean slate.  With more
  than three soma nodes, none of them marked processed yet and their ids distinct, the
  call on the first node of the soma nodes sorted by ascending x appends one segment for
  every soma node, chained in that order.  The call on any other node, in any writer state
  \<open>v\<close> over the same soma nodes, only marks the node processed.
\<close>

lemma soma_chain_from_lowest:
  assumes "writer_ready w"
    and "length (soma_points_of w) > 3"
    and "distinct (map swc_id (soma_points_of w))"
    and "\<forall>p \<in> set (soma_points_of w). swc_id p \<notin> processed_nodes w"
    and "lowest = hd (sort_key swc_x (soma_points_of w))"
    and "soma_points_of v = soma_points_of w"
    and "q \<noteq> lowest"
    and "swc_id q \<notin> processed_nodes v"
  shows "sorted (map swc_x (sort_key swc_x (soma_points_of w)))
         \<and> (\<exists>w'. handle_soma lowest parent_point w = Inr w'
                \<and> segments_of w' = segments_of w @
                      map (chain_segment (sort_key swc_x (soma_points_of w)) (next_segment_id w))
                          [0 ..< length (soma_points_of w)])
         \<and> handle_soma q parent_point v = Inr (mark_processed (swc_id q) v)
         \<and> segments_of (mark_processed (swc_id q) v) = segments_of v"
proof -
  let ?sorted = "sort_key swc_x (soma_points_of w)"
  have nonempty: "?sorted \<noteq> []" using assms(2) by (metis length_sort list.size(3) not_less0)
  then obtain rest where sorted_eq: "?sorted = lowest # rest"
    using assms(5) by (cases ?sorted) auto
  have ids: "distinct (map swc_id ?sorted)"
    using assms(3) by (simp add: distinct_map_sort_key)
  have fresh: "\<forall>p \<in> set ?sorted. swc_id p \<notin> processed_nodes w"
    using assms(4) by simp
  from soma_loop_chain [OF assms(1) ids fresh, of "[]"] obtain w1 where
    loop: "soma_loop ?sorted 0 ?sorted w = Inr w1"
    and segs: "segments_of w1 = segments_of w @
                 map (chain_segment ?sorted (next_segment_id w)) [0 ..< length ?sorted]"
    by auto
  have low_fresh: "swc_id lowest \<notin> processed_nodes w"
    using fresh sorted_eq by (metis list.set_intros(1))
  have run: "handle_soma lowest parent_point w = Inr (mark_processed (swc_id lowest) w1)"
    using assms(2) low_fresh loop sorted_eq by (simp add: handle_soma_def Let_def)
  have other: "handle_soma q parent_point v = Inr (mark_processed (swc_id q) v)"
    using assms(2,6,7,8) sorted_eq by (simp add: handle_soma_def Let_def)
  have asc: "sorted (map swc_x ?sorted)" by (rule sorted_sort_key)
  from run segs other asc show ?thesis by simp
qed

text \<open>
  C2 on two contours of four soma points (\<open>N = 4\<close>), each traversed from its start point.

  In the first the start point, node 1, is also the lowest-x soma point.  The traversal
  emits four soma segments, not \<open>N - 1 = 3\<close>: the chain over the sorted nodes 1, 2, 4, 3
  ends with a segment of length zero, whose distal point is the distal point of its parent.

  In the second the start point has the highest x.  Its call of \<open>handle_soma\<close> does no
  work but marks it processed, so the loop of the later call on node 2 skips it: three
  segments are emitted, the last one ending at the point of node 1, and node 1 has no
  entry in the lookup table.

  The docstring of \<open>handle_soma\<close> says of such somata that contours are converted to a
  three-point soma cylinder and that cylinders are kept as they are.
\<close>

theorem many_point_soma_segment_count:
  "soma_points_of con_writer = [con_n1, con_n2, con_n3, con_n4]
   \<and> sort_key swc_x (soma_points_of con_writer) = [con_n1, con_n2, con_n4, con_n3]
   \<and> find_start_point con_writer = Inr con_n1
   \<and> map_sum id segments_of (parse_tree 1000 con_n1 con_n1 con_writer) =
       Inr [\<lparr> seg_id = 0, seg_name = ''soma_Seg_0'', seg_parent = None,
              seg_proximal = Some \<lparr> pt_x = 0, pt_y = 0, pt_z = 0, diameter = 10 \<rparr>,
              seg_distal = Some \<lparr> pt_x = 1, pt_y = 1, pt_z = 0, diameter = 10 \<rparr> \<rparr>,
            \<lparr> seg_id = 1, seg_name = ''soma_Seg_1'',
              seg_parent = Some \<lparr> segments = 0, fraction_along = 1 \<rparr>,
              seg_proximal = None,
              seg_distal = Some \<lparr> pt_x = 1, pt_y = - 1, pt_z = 0, diameter = 10 \<rparr> \<rparr>,
            \<lparr> seg_id = 2, seg_name = ''soma_Seg_2'',
              seg_parent = Some \<lparr> segments = 1, fraction_along = 1 \<rparr>,
              seg_proximal = None,
              seg_distal = Some \<lparr> pt_x = 2, pt_y = 0, pt_z = 0, diameter = 10 \<rparr> \<rparr>,
            \<lparr> seg_id = 3, seg_name = ''soma_Seg_3'',
              seg_parent = Some \<lparr> segments = 2, fraction_along = 1 \<rparr>,
              seg_proximal = None,
              seg_distal = Some \<lparr> pt_x = 2, pt_y = 0, pt_z = 0, diameter = 10 \<rparr> \<rparr>,
            \<lparr> seg_id = 4, seg_name = ''basal dendrite_Seg_4'',
              seg_parent = Some \<lparr> segments = 0, fraction_along = 1 \<rparr>,
              seg_proximal = Some \<lparr> pt_x = 0, pt_y = 4, pt_z = 0, diameter = 2 \<rparr>,
              seg_distal = Some \<lparr> pt_x = 0, pt_y = 4, pt_z = 0, diameter = 2 \<rparr> \<rparr>]
   \<and> map_sum id segment_types (parse_tree 1000 con_n1 con_n1 con_writer) =
       Inr [(0, SOMA), (1, SOMA), (2, SOMA), (3, SOMA), (4, BASAL_DENDRITE)]
   \<and> soma_points_of far_writer = [far_n1, far_n2, far_n3, far_n4]
   \<and> sort_key swc_x (soma_points_of far_writer) = [far_n2, far_n3, far_n4, far_n1]
   \<and> find_start_point far_writer = Inr far_n1
   \<and> map_sum id segments_of (parse_tree 1000 far_n1 far_n1 far_writer) =
       Inr [\<lparr> seg_id = 0, seg_name = ''soma_Seg_0'', seg_parent = None,
              seg_proximal = Some \<lparr> pt_x = 0, pt_y = 0, pt_z = 0, diameter = 10 \<rparr>,
              seg_distal = Some \<lparr> pt_x = 1, pt_y = 0, pt_z = 0, diameter = 10 \<rparr> \<rparr>,
            \<lparr> seg_id = 1, seg_name = ''soma_Seg_1'',
              seg_parent = Some \<lparr> segments = 0, fraction_along = 1 \<rparr>,
              seg_proximal = None,
              seg_distal = Some \<lparr> pt_x = 2, pt_y = 0, pt_z = 0, diameter = 10 \<rparr> \<rparr>,
            \<lparr> seg_id = 2, seg_name = ''soma_Seg_2'',
              seg_parent = Some \<lparr> segments = 1, fraction_along = 1 \<rparr>,
              seg_proximal = None,
              seg_distal = Some \<lparr> pt_x = 5, pt_y = 0, pt_z = 0, diameter = 10 \<rparr> \<rparr>]
   \<and> map_sum id point_indices_vs_seg_ids (parse_tree 1000 far_n1 far_n1 far_writer) =
       Inr [(2, 0), (3, 1), (4, 2)]"
  by code_simp

subsection \<open>The general rule\<close>

text \<open>
  C3 (as the code has it).  For a node not yet marked processed, \<open>create_segment\<close>
  appends one segment.  Its proximal point is the node's own point at a type boundary,
  the parent's point when the type is the parent's and the parent has more than one child,
  and is left unset otherwise.  Its distal point is the node's own point, except at a type
  boundary of a node with children, where it is the point of the first child.
\<close>

theorem create_segment_points:
  assumes "writer_ready w" and "swc_id this_point \<notin> processed_nodes w"
  shows "\<exists>w' s. create_segment this_point parent_point new_branch w = Inr w'
           \<and> segments_of w' = segments_of w @ [s]
           \<and> seg_id s = next_segment_id w
           \<and> seg_proximal s =
                (if swc_type this_point \<noteq> swc_type parent_point
                 then Some (point_of this_point)
                 else if length (swc_children parent_point) > 1
                 then Some (point_of parent_point)
                 else None)
           \<and> seg_distal s =
                Some (if swc_type this_point \<noteq> swc_type parent_point
                         \<and> swc_children this_point \<noteq> []
                      then point_of (hd (swc_children this_point))
                      else point_of this_point)"
proof -
  let ?w = "w \<lparr> next_segment_id := next_segment_id w + 1 \<rparr>"
  have ready: "writer_ready ?w" using assms(1) by simp
  define seg where "seg =
     \<lparr> seg_id = next_segment_id w,
       seg_name =
         (if swc_type this_point < length (section_types ?w)
          then section_types ?w ! swc_type this_point
          else ''type_'' @ str_nat (swc_type this_point)) @ ''_Seg_'' @ str_int (next_segment_id w),
       seg_parent =
         (case map_of (point_indices_vs_seg_ids ?w) (swc_id parent_point) of
            None \<Rightarrow> None
          | Some parent_seg_id \<Rightarrow> Some (parent_ref parent_seg_id)),
       seg_proximal =
         (if swc_type this_point \<noteq> swc_type parent_point then Some (point_of this_point)
          else if length (swc_children parent_point) > 1 then Some (point_of parent_point)
          else None),
       seg_distal =
         (if swc_type this_point \<noteq> swc_type parent_point then
            (case swc_children this_point of
               next_point # _ \<Rightarrow> Some (point_of next_point)
             | [] \<Rightarrow> Some (point_of this_point))
          else if length (swc_children parent_point) > 1 then Some (point_of this_point)
          else if swc_id this_point \<notin> processed_nodes ?w then Some (point_of this_point)
          else None) \<rparr>"
  from store_segment_ok [OF ready] obtain w1 where
    w1: "store_segment seg (swc_id this_point) (next_segment_id w) (swc_type this_point) ?w
           = Inr w1"
    by blast
  have run: "create_segment this_point parent_point new_branch w
               = Inr (mark_processed (swc_id this_point) w1)"
    unfolding create_segment_def Let_def seg_def [symmetric] w1 by simp
  have segs: "segments_of (mark_processed (swc_id this_point) w1) = segments_of w @ [seg]"
    using store_segment_segments_of [OF w1] by simp
  have dist: "seg_distal seg =
                Some (if swc_type this_point \<noteq> swc_type parent_point
                         \<and> swc_children this_point \<noteq> []
                      then point_of (hd (swc_children this_point))
                      else point_of this_point)"
    using assms(2) by (simp add: seg_def split: list.splits)
  have prox: "seg_proximal seg =
                (if swc_type this_point \<noteq> swc_type parent_point
                 then Some (point_of this_point)
                 else if length (swc_children parent_point) > 1
                 then Some (point_of parent_point)
                 else None)"
    by (simp add: seg_def)
  have ident: "seg_id seg = next_segment_id w" by (simp add: seg_def)
  from run segs ident prox dist show ?thesis by blast
qed

theorem create_segment_points_witness:
  "writer_ready ex_writer \<and> swc_id ex_n4 \<notin> processed_nodes ex_writer
   \<and> (\<exists>w' s. create_segment ex_n4 ex_n1 True ex_writer = Inr w'
          \<and> segments_of w' = segments_of ex_writer @ [s]
          \<and> seg_id s = 0
          \<and> seg_proximal s = Some (point_of ex_n4)
          \<and> seg_distal s = Some (point_of ex_n5))"
proof -
  have ready: "writer_ready ex_writer" by code_simp
  have fresh: "swc_id ex_n4 \<notin> processed_nodes ex_writer" by code_simp
  have boundary: "swc_type ex_n4 \<noteq> swc_type ex_n1" by code_simp
  have child: "swc_children ex_n4 = [ex_n5]" by (simp add: ex_n4_def)
  have start: "next_segment_id ex_writer = 0" by code_simp
  from create_segment_points [OF ready fresh, of ex_n1 True] boundary child start
  show ?thesis using ready fresh by simp
qed

text \<open>
  C3 as stated fails twice on that tree.  Node 4 (a dendrite on the soma node 1) starts at
  a type boundary, and the proximal point of its segment is its own point, not the
  parent's.  Node 6 has the type of its parent 5, which has two children, and its segment
  has a proximal point all the same: the parent's.
\<close>

theorem create_segment_proximal_counterexample:
  "swc_type ex_n4 \<noteq> swc_type ex_n1
   \<and> map_sum id (\<lambda>w. map seg_proximal (segments_of w))
         (create_segment ex_n4 ex_n1 True ex_writer) = Inr [Some (point_of ex_n4)]
   \<and> point_of ex_n4 \<noteq> point_of ex_n1
   \<and> swc_type ex_n6 = swc_type ex_n5
   \<and> map_sum id (\<lambda>w. map seg_proximal (segments_of w))
         (create_segment ex_n6 ex_n5 True ex_writer) = Inr [Some (point_of ex_n5)]"
  by code_simp

subsection \<open>Fewer than two points\<close>

text \<open>
  C10.  When the graph has fewer than two point-nodes, \<open>nml_string\<close> returns the empty
  string, raises nothing and leaves the writer as \<open>__init__\<close> made it: no cell, no
  document, no segment.
\<close>

theorem nml_string_fewer_than_two_points:
  assumes "length (nodes swc_graph) < 2"
  shows "nml_string unbranched write_doc limit (init swc_graph) = Inr ([], init swc_graph)
         \<and> cell (init swc_graph) = None
         \<and> nml_doc (init swc_graph) = None
         \<and> next_segment_id (init swc_graph) = 0"
  using assms by (simp add: nml_string_def init_def)

theorem nml_string_fewer_than_two_points_witness:
  "length (nodes \<lparr> nodes = [SWCNode 1 1 0 0 0 10 (- 1) []], metadata = [] \<rparr>) < 2
   \<and> nml_string (\<lambda>c r. Inr c) (\<lambda>d. ''doc'') 1000
         (init \<lparr> nodes = [SWCNode 1 1 0 0 0 10 (- 1) []], metadata = [] \<rparr>)
       = Inr ([], init \<lparr> nodes = [SWCNode 1 1 0 0 0 10 (- 1) []], metadata = [] \<rparr>)"
  using nml_string_fewer_than_two_points
          [of "\<lparr> nodes = [SWCNode 1 1 0 0 0 10 (- 1) []], metadata = [] \<rparr>"
              "\<lambda>c r. Inr c" "\<lambda>d. ''doc''" 1000]
  by simp

subsection \<open>The invariant of the traversal\<close>

lemma builder_inv_ready: "builder_inv w \<Longrightarrow> writer_ready w"
  by (auto simp: builder_inv_def writer_ready_def groups_present_def)

lemma builder_inv_start: "builder_inv (create_cell (init swc_graph))"
  by (simp add: builder_inv_def create_cell_def init_def Let_def segments_of_def
        group_names_def)

lemma builder_inv_mark [simp]: "builder_inv (mark_processed i w) = builder_inv w"
  by (simp add: builder_inv_def mark_processed_def segments_of_def)

lemma update_values: "snd ` set (AList.update k v al) \<subseteq> insert v (snd ` set al)"
  by (induction al) auto

lemma builder_inv_step:
  assumes inv: "builder_inv w"
    and st: "store_segment seg pid (next_segment_id w) t (w \<lparr> next_segment_id := k \<rparr>) = Inr w1"
    and sid: "seg_id seg = next_segment_id w"
    and par: "\<And>p. seg_parent seg = Some p \<Longrightarrow> segments p < next_segment_id w"
  shows "builder_inv (w1 \<lparr> next_segment_id := next_segment_id w + 1 \<rparr>)"
proof -
  let ?n = "next_segment_id w"
  let ?w' = "w1 \<lparr> next_segment_id := ?n + 1 \<rparr>"
  note facts = store_segment_Inr [OF st]
  have segs: "segments_of ?w' = segments_of w @ [seg]"
    using store_segment_segments_of [OF st] by simp
  have n: "?n = int (length (segments_of w))" using inv by (simp add: builder_inv_def)
  have c1: "cell ?w' \<noteq> None" using facts(1) by auto
  have c2: "map fst (segment_groups ?w') = group_names"
    using facts(4) inv by (simp add: builder_inv_def)
  have c3: "next_segment_id ?w' = int (length (segments_of ?w'))"
    using n segs by simp
  have c4: "map seg_id (segments_of ?w') = map int [0 ..< length (segments_of ?w')]"
    using inv sid n segs by (simp add: builder_inv_def)
  have c5: "\<forall>s \<in> set (segments_of ?w'). \<forall>p. seg_parent s = Some p \<longrightarrow> segments p < seg_id s"
    using inv sid par segs by (auto simp: builder_inv_def)
  have c6: "\<forall>v \<in> snd ` set (point_indices_vs_seg_ids ?w'). v < next_segment_id ?w'"
  proof
    fix v assume "v \<in> snd ` set (point_indices_vs_seg_ids ?w')"
    then have "v \<in> insert ?n (snd ` set (point_indices_vs_seg_ids w))"
      using facts(2) update_values [of pid ?n "point_indices_vs_seg_ids w"] by auto
    then show "v < next_segment_id ?w'"
      using inv by (auto simp: builder_inv_def)
  qed
  have keys: "fst ` set (segment_types w) = {0 ..< ?n}" using inv by (simp add: builder_inv_def)
  have c7: "fst ` set (segment_types ?w') = {0 ..< next_segment_id ?w'}"
    using facts(3) keys n by (auto simp: dom_update)
  have fresh: "map_of (segment_types w) ?n = None"
    using keys by (metis atLeastLessThan_iff less_irrefl map_of_eq_None_iff)
  have types: "map_of (segment_types ?w') = (map_of (segment_types w))(?n \<mapsto> t)"
    using facts(3) by (simp add: update_conv')
  have c8: "\<forall>g \<in> set group_names.
            map_of (segment_groups ?w') g =
              Some {i. \<exists>u. map_of (segment_types ?w') i = Some u
                         \<and> g \<in> set (get_groups_for_type u)}"
  proof
    fix g assume g: "g \<in> set group_names"
    have old: "map_of (segment_groups w) g =
                 Some {i. \<exists>u. map_of (segment_types w) i = Some u
                            \<and> g \<in> set (get_groups_for_type u)}"
      using inv g by (simp add: builder_inv_def)
    have new: "map_of (segment_groups ?w') g =
                 (if g \<in> set (get_groups_for_type t)
                  then map_option (insert ?n) (map_of (segment_groups w) g)
                  else map_of (segment_groups w) g)"
      using facts(5) [of g] by simp
    show "map_of (segment_groups ?w') g =
              Some {i. \<exists>u. map_of (segment_types ?w') i = Some u
                         \<and> g \<in> set (get_groups_for_type u)}"
      unfolding new old types using fresh by auto
  qed
  from c1 c2 c3 c4 c5 c6 c7 c8 show ?thesis
    unfolding builder_inv_def by blast
qed

lemma mark_processed_next:
  "(mark_processed i w) \<lparr> next_segment_id := n \<rparr> = mark_processed i (w \<lparr> next_segment_id := n \<rparr>)"
  by (simp add: mark_processed_def)

lemma builder_inv_step_same:
  assumes "builder_inv w"
    and "store_segment seg pid (next_segment_id w) t w = Inr w1"
    and "seg_id seg = next_segment_id w"
    and "\<And>p. seg_parent seg = Some p \<Longrightarrow> segments p < next_segment_id w"
  shows "builder_inv (w1 \<lparr> next_segment_id := next_segment_id w + 1 \<rparr>)"
  using builder_inv_step [of w seg pid t "next_segment_id w" w1] assms by simp

lemma create_segment_inv:
  assumes inv: "builder_inv w"
    and run: "create_segment this_point parent_point new_branch w = Inr w'"
  shows "builder_inv w'"
proof -
  let ?n = "next_segment_id w"
  from run obtain seg w1 where
    st: "store_segment seg (swc_id this_point) ?n (swc_type this_point)
           (w \<lparr> next_segment_id := ?n + 1 \<rparr>) = Inr w1"
    and w': "w' = mark_processed (swc_id this_point) w1"
    and sid: "seg_id seg = ?n"
    and par: "seg_parent seg =
                (case map_of (point_indices_vs_seg_ids w) (swc_id parent_point) of
                   None \<Rightarrow> None
                 | Some parent_seg_id \<Rightarrow> Some (parent_ref parent_seg_id))"
    by (auto simp: create_segment_def Let_def split: sum.splits)
  have earlier: "\<And>p. seg_parent seg = Some p \<Longrightarrow> segments p < ?n"
  proof -
    fix p assume "seg_parent seg = Some p"
    with par obtain v where v: "map_of (point_indices_vs_seg_ids w) (swc_id parent_point) = Some v"
      and p: "p = parent_ref v"
      by (auto split: option.splits)
    from v have "v \<in> snd ` set (point_indices_vs_seg_ids w)"
      by (metis map_of_SomeD snd_conv image_eqI)
    with inv have "v < ?n" unfolding builder_inv_def by blast
    with p show "segments p < ?n" by (simp add: parent_ref_def)
  qed
  have "builder_inv (w1 \<lparr> next_segment_id := ?n + 1 \<rparr>)"
    by (rule builder_inv_step [OF inv st sid earlier])
  moreover have "next_segment_id w1 = ?n + 1"
    using store_segment_Inr(8) [OF st] by simp
  ultimately have "builder_inv w1" by (metis NeuroMLWriter.surjective NeuroMLWriter.update_convs(7))
  with w' show ?thesis by simp
qed

lemma soma_loop_inv:
  assumes "builder_inv w" and "soma_loop sorted_soma_points i rest w = Inr w'"
  shows "builder_inv w'"
  using assms
proof (induction rest arbitrary: i w)
  case Nil
  then show ?case by simp
next
  case (Cons cur rest)
  show ?case
  proof (cases "swc_id cur \<in> processed_nodes w")
    case True
    with Cons.prems(2) have "soma_loop sorted_soma_points (i + 1) rest w = Inr w'" by simp
    from Cons.IH [OF Cons.prems(1) this] show ?thesis .
  next
    case False
    let ?n = "next_segment_id w"
    from False Cons.prems(2) obtain seg w1 where
      st: "store_segment seg (swc_id cur) ?n SOMA w = Inr w1"
      and loop: "soma_loop sorted_soma_points (i + 1) rest
                   ((mark_processed (swc_id cur) w1) \<lparr> next_segment_id := ?n + 1 \<rparr>) = Inr w'"
      and sid: "seg_id seg = ?n"
      and par: "seg_parent seg = (if i = 0 then None else Some (parent_ref (?n - 1)))"
      by (auto simp: Let_def split: sum.splits)
    have earlier: "\<And>p. seg_parent seg = Some p \<Longrightarrow> segments p < ?n"
      using par by (auto simp: parent_ref_def split: if_splits)
    have "builder_inv (w1 \<lparr> next_segment_id := ?n + 1 \<rparr>)"
      by (rule builder_inv_step_same [OF Cons.prems(1) st sid earlier])
    then have "builder_inv ((mark_processed (swc_id cur) w1) \<lparr> next_segment_id := ?n + 1 \<rparr>)"
      by (simp add: mark_processed_next)
    from Cons.IH [OF this loop] show ?thesis .
  qed
qed

lemma handle_soma_inv:
  assumes inv: "builder_inv w"
    and run: "handle_soma this_point parent_point w = Inr w'"
  shows "builder_inv w'"
proof (cases "swc_id this_point \<in> processed_nodes w")
  case True
  with run inv show ?thesis by (simp add: handle_soma_def)
next
  case False
  let ?n = "next_segment_id w"
  let ?sp = "soma_points_of w"
  consider (three_first) "length ?sp = 3" "swc_id this_point = swc_id (?sp ! 0)"
    | (three_other) "length ?sp = 3" "swc_id this_point \<noteq> swc_id (?sp ! 0)"
    | (one) "length ?sp = 1"
    | (many) "length ?sp \<noteq> 3" "length ?sp \<noteq> 1"
    by blast
  then show ?thesis
  proof cases
    case three_first
    with run False obtain segA w1 segB w3 where
      a: "store_segment segA (swc_id this_point) ?n SOMA w = Inr w1"
      and ida: "seg_id segA = ?n" and para: "seg_parent segA = None"
      and b: "store_segment segB (swc_id (?sp ! 2)) (?n + 1) SOMA
                (w1 \<lparr> next_segment_id := ?n + 1 \<rparr>) = Inr w3"
      and idb: "seg_id segB = ?n + 1" and parb: "seg_parent segB = Some (parent_ref (?n + 1 - 1))"
      and w': "w' = mark_processed (swc_id this_point) (w3 \<lparr> next_segment_id := ?n + 1 + 1 \<rparr>)"
      by (auto simp: handle_soma_def Let_def split: sum.splits)
    let ?w2 = "w1 \<lparr> next_segment_id := ?n + 1 \<rparr>"
    have inv2: "builder_inv ?w2"
      by (rule builder_inv_step_same [OF inv a ida]) (simp add: para)
    have "builder_inv (w3 \<lparr> next_segment_id := next_segment_id ?w2 + 1 \<rparr>)"
    proof (rule builder_inv_step_same [OF inv2])
      show "store_segment segB (swc_id (?sp ! 2)) (next_segment_id ?w2) SOMA ?w2 = Inr w3"
        using b by simp
      show "seg_id segB = next_segment_id ?w2" using idb by simp
      show "\<And>p. seg_parent segB = Some p \<Longrightarrow> segments p < next_segment_id ?w2"
        using parb by (auto simp: parent_ref_def)
    qed
    with w' show ?thesis by simp
  next
    case three_other
    with run False inv show ?thesis by (auto simp: handle_soma_def Let_def)
  next
    case one
    with run False obtain seg w1 where
      a: "store_segment seg (swc_id this_point) ?n SOMA w = Inr w1"
      and ida: "seg_id seg = ?n" and para: "seg_parent seg = None"
      and w': "w' = mark_processed (swc_id this_point) (w1 \<lparr> next_segment_id := ?n + 1 \<rparr>)"
      by (auto simp: handle_soma_def Let_def split: sum.splits)
    have "builder_inv (w1 \<lparr> next_segment_id := ?n + 1 \<rparr>)"
      by (rule builder_inv_step_same [OF inv a ida]) (simp add: para)
    with w' show ?thesis by simp
  next
    case many
    let ?sorted = "sort_key swc_x ?sp"
    from run False many obtain first_point rest where
      sorted_eq: "?sorted = first_point # rest"
      by (auto simp: handle_soma_def Let_def split: list.splits)
    show ?thesis
    proof (cases "this_point = first_point")
      case True
      with run False many sorted_eq obtain w1 where
        loop: "soma_loop ?sorted 0 ?sorted w = Inr w1"
        and w': "w' = mark_processed (swc_id this_point) w1"
        by (auto simp: handle_soma_def Let_def split: sum.splits)
      from soma_loop_inv [OF inv loop] w' show ?thesis by simp
    next
      case other: False
      with run False many sorted_eq inv show ?thesis
        by (auto simp: handle_soma_def Let_def)
    qed
  qed
qed

lemma parse_tree_inv:
  "builder_inv w \<Longrightarrow> parse_tree limit parent_point this_point w = Inr w' \<Longrightarrow> builder_inv w'"
  and parse_children_inv:
  "builder_inv w \<Longrightarrow> parse_children limit this_point cs w = Inr w' \<Longrightarrow> builder_inv w'"
proof (induction limit parent_point this_point w and limit this_point cs w
       arbitrary: w' and w' rule: parse_tree_parse_children.induct)
  case (1 limit parent_point this_point w)
  from "1.prems"(2) have room: "limit \<noteq> 0"
    by (subst (asm) parse_tree.simps) (auto split: if_splits)
  show ?case
  proof (cases "swc_id this_point \<in> processed_nodes w")
    case True
    with "1.prems" room show ?thesis by (simp add: parse_tree.simps)
  next
    case False
    define r where "r =
       (if swc_type this_point = SOMA then handle_soma this_point parent_point w
        else if swc_id this_point \<notin> processed_nodes w then
          (case create_segment this_point parent_point
                  (1 < length (swc_children parent_point)
                   \<or> swc_type this_point \<noteq> swc_type parent_point) w of
             Inl e \<Rightarrow> Inl e
           | Inr w1 \<Rightarrow> Inr (mark_processed (swc_id this_point) w1))
        else Inr w)"
    have unfold: "parse_tree limit parent_point this_point w =
       (case r of
          Inl e \<Rightarrow> Inl e
        | Inr w2 \<Rightarrow>
            parse_children (limit - 1) this_point (swc_children this_point)
              (mark_processed (swc_id this_point) w2))"
      using False room unfolding r_def by (subst parse_tree.simps) (simp add: Let_def)
    from "1.prems"(2) obtain w2 where
      step: "r = Inr w2"
      and rest: "parse_children (limit - 1) this_point (swc_children this_point)
                   (mark_processed (swc_id this_point) w2) = Inr w'"
      unfolding unfold by (cases r) auto
    have "builder_inv w2"
      using step "1.prems"(1) unfolding r_def
      by (auto split: if_splits sum.splits dest: handle_soma_inv create_segment_inv)
    then have "builder_inv (mark_processed (swc_id this_point) w2)" by simp
    from "1.IH" [OF room False refl refl step [unfolded r_def] this rest] show ?thesis .
  qed
next
  case (2 limit this_point w)
  then show ?case by simp
next
  case (3 limit this_point child_point rest w)
  show ?case
  proof (cases "swc_id child_point \<in> processed_nodes w")
    case True
    with "3.prems" "3.IH"(3) show ?thesis by simp
  next
    case False
    with "3.prems"(2) obtain w1 where
      child: "parse_tree limit this_point child_point w = Inr w1"
      and more: "parse_children limit this_point rest w1 = Inr w'"
      by (auto split: sum.splits)
    from "3.IH"(1) [OF False "3.prems"(1) child] have "builder_inv w1" .
    from "3.IH"(2) [OF False child this more] show ?thesis .
  qed
qed

subsection \<open>Segment ids\<close>

text \<open>
  C4.  In the writer that the traversal of any graph leaves, the segment ids are
  \<open>0, 1, ..., n - 1\<close> in the order of the segment list, and a segment with a parent
  reference has a parent id strictly less than its own id.
\<close>

theorem segment_ids_sequential:
  assumes "parse_tree limit parent_point start_point (create_cell (init swc_graph)) = Inr w"
  shows "map seg_id (segments_of w) = map int [0 ..< length (segments_of w)]
         \<and> (\<forall>s \<in> set (segments_of w). \<forall>p. seg_parent s = Some p \<longrightarrow> segments p < seg_id s)"
proof -
  have "builder_inv w"
    by (rule parse_tree_inv [OF builder_inv_start assms])
  then show ?thesis unfolding builder_inv_def by blast
qed

theorem segment_ids_sequential_witness:
  "parse_tree 1000 ex_n1 ex_n1 (create_cell (init ex_graph)) = Inr ex_built
   \<and> map seg_id (segments_of ex_built) = [0, 1, 2, 3, 4, 5]
   \<and> map (map_option segments \<circ> seg_parent) (segments_of ex_built)
       = [None, Some 0, Some 0, Some 2, Some 3, Some 3]"
proof -
  have run: "parse_tree 1000 ex_n1 ex_n1 (create_cell (init ex_graph)) = Inr ex_built"
    by code_simp
  have count: "length (segments_of ex_built) = 6"
    by code_simp
  have parents: "map (map_option segments \<circ> seg_parent) (segments_of ex_built)
       = [None, Some 0, Some 0, Some 2, Some 3, Some 3]"
    by code_simp
  have "map int [0 ..< 6] = [0, 1, 2, 3, 4, 5]" by code_simp
  with segment_ids_sequential [OF run] count parents run show ?thesis by simp
qed

subsection \<open>Groups\<close>

lemma in_groups_for_type:
  "''all'' \<in> set (get_groups_for_type t)"
  "''soma_group'' \<in> set (get_groups_for_type t) \<longleftrightarrow> t = SOMA"
  "''axon_group'' \<in> set (get_groups_for_type t) \<longleftrightarrow> t = AXON"
  "''dendrite_group'' \<in> set (get_groups_for_type t) \<longleftrightarrow> t \<ge> BASAL_DENDRITE"
  by (auto simp: get_groups_for_type_def SOMA_def AXON_def BASAL_DENDRITE_def
        APICAL_DENDRITE_def)

lemma groups_for_undefined: "set (get_groups_for_type UNDEFINED) = {''all''}"
  by (simp add: get_groups_for_type_def UNDEFINED_def SOMA_def AXON_def BASAL_DENDRITE_def
        APICAL_DENDRITE_def)

lemma one_canonical_group:
  assumes "t \<noteq> UNDEFINED"
  shows "\<exists>!g. g \<in> {''soma_group'', ''axon_group'', ''dendrite_group''}
              \<and> g \<in> set (get_groups_for_type t)"
proof -
  consider "t = SOMA" | "t = AXON" | "t \<ge> BASAL_DENDRITE"
    using assms unfolding UNDEFINED_def SOMA_def AXON_def BASAL_DENDRITE_def by linarith
  then show ?thesis
  proof cases
    case 1
    show ?thesis
    proof (rule ex1I [of _ "''soma_group''"])
      show "''soma_group'' \<in> {''soma_group'', ''axon_group'', ''dendrite_group''}
            \<and> ''soma_group'' \<in> set (get_groups_for_type t)"
        using 1 by (simp add: in_groups_for_type)
    next
      fix g
      assume "g \<in> {''soma_group'', ''axon_group'', ''dendrite_group''}
              \<and> g \<in> set (get_groups_for_type t)"
      then show "g = ''soma_group''"
        using 1 in_groups_for_type(3,4) [of t]
        by (auto simp: SOMA_def AXON_def BASAL_DENDRITE_def)
    qed
  next
    case 2
    show ?thesis
    proof (rule ex1I [of _ "''axon_group''"])
      show "''axon_group'' \<in> {''soma_group'', ''axon_group'', ''dendrite_group''}
            \<and> ''axon_group'' \<in> set (get_groups_for_type t)"
        using 2 by (simp add: in_groups_for_type)
    next
      fix g
      assume "g \<in> {''soma_group'', ''axon_group'', ''dendrite_group''}
              \<and> g \<in> set (get_groups_for_type t)"
      then show "g = ''axon_group''"
        using 2 in_groups_for_type(2,4) [of t]
        by (auto simp: SOMA_def AXON_def BASAL_DENDRITE_def)
    qed
  next
    case 3
    show ?thesis
    proof (rule ex1I [of _ "''dendrite_group''"])
      show "''dendrite_group'' \<in> {''soma_group'', ''axon_group'', ''dendrite_group''}
            \<and> ''dendrite_group'' \<in> set (get_groups_for_type t)"
        using 3 by (simp add: in_groups_for_type)
    next
      fix g
      assume "g \<in> {''soma_group'', ''axon_group'', ''dendrite_group''}
              \<and> g \<in> set (get_groups_for_type t)"
      then show "g = ''dendrite_group''"
        using 3 in_groups_for_type(2,3) [of t]
        by (auto simp: SOMA_def AXON_def BASAL_DENDRITE_def)
    qed
  qed
qed

lemma builder_inv_members:
  assumes "builder_inv w"
  shows "group_members w g =
           {i. \<exists>t. map_of (segment_types w) i = Some t \<and> g \<in> set (get_groups_for_type t)}"
proof (cases "g \<in> set group_names")
  case True
  with assms show ?thesis by (simp add: builder_inv_def group_members_def)
next
  case False
  with assms have "map_of (segment_groups w) g = None"
    by (metis builder_inv_def map_of_eq_None_iff set_map)
  moreover have "\<And>t. g \<notin> set (get_groups_for_type t)"
    using False get_groups_in_names by blast
  ultimately show ?thesis by (simp add: group_members_def)
qed

lemma builder_inv_typed:
  assumes "builder_inv w" and "s \<in> set (segments_of w)"
  shows "\<exists>t. map_of (segment_types w) (seg_id s) = Some t"
proof -
  from assms(2) have "seg_id s \<in> set (map seg_id (segments_of w))" by simp
  also have "\<dots> = set (map int [0 ..< length (segments_of w)])"
    using assms(1) by (simp add: builder_inv_def)
  finally have "seg_id s \<in> {0 ..< next_segment_id w}"
    using assms(1) by (auto simp: builder_inv_def)
  then have "seg_id s \<in> fst ` set (segment_types w)"
    using assms(1) by (simp add: builder_inv_def)
  then show ?thesis
    by (metis map_of_eq_None_iff not_None_eq)
qed

text \<open>
  C5.  In the writer that the traversal of any graph leaves, every segment has a source
  type in \<open>segment_types\<close> and is a member of \<open>all\<close>.  When that type is not 0, the
  segment is in exactly one of \<open>soma_group\<close>, \<open>axon_group\<close>, \<open>dendrite_group\<close>.  When it is
  0, \<open>all\<close> is the only group that holds the segment.
\<close>

theorem group_coverage:
  assumes "parse_tree limit parent_point start_point (create_cell (init swc_graph)) = Inr w"
    and "s \<in> set (segments_of w)"
  shows "\<exists>t. map_of (segment_types w) (seg_id s) = Some t
           \<and> seg_id s \<in> group_members w ''all''
           \<and> (t \<noteq> UNDEFINED \<longrightarrow>
                (\<exists>!g. g \<in> {''soma_group'', ''axon_group'', ''dendrite_group''}
                       \<and> seg_id s \<in> group_members w g))
           \<and> (t = UNDEFINED \<longrightarrow>
                (\<forall>g. seg_id s \<in> group_members w g \<longrightarrow> g = ''all''))"
proof -
  have inv: "builder_inv w"
    by (rule parse_tree_inv [OF builder_inv_start assms(1)])
  from builder_inv_typed [OF inv assms(2)] obtain t where
    t: "map_of (segment_types w) (seg_id s) = Some t" by blast
  have mem: "\<And>g. seg_id s \<in> group_members w g \<longleftrightarrow> g \<in> set (get_groups_for_type t)"
    using t by (simp add: builder_inv_members [OF inv])
  have "seg_id s \<in> group_members w ''all''"
    unfolding mem by (rule in_groups_for_type(1))
  moreover have "t \<noteq> UNDEFINED \<longrightarrow>
                (\<exists>!g. g \<in> {''soma_group'', ''axon_group'', ''dendrite_group''}
                       \<and> seg_id s \<in> group_members w g)"
    unfolding mem using one_canonical_group [of t] by blast
  moreover have "t = UNDEFINED \<longrightarrow> (\<forall>g. seg_id s \<in> group_members w g \<longrightarrow> g = ''all'')"
    unfolding mem using groups_for_undefined by blast
  ultimately show ?thesis using t by blast
qed

theorem group_coverage_witness:
  "parse_tree 1000 ex_n1 ex_n1 (create_cell (init ex_graph)) = Inr ex_built
   \<and> segments_of ex_built ! 3 \<in> set (segments_of ex_built)
   \<and> seg_id (segments_of ex_built ! 3) = 3
   \<and> map_of (segment_types ex_built) 3 = Some BASAL_DENDRITE
   \<and> 3 \<in> group_members ex_built ''all''
   \<and> 3 \<in> group_members ex_built ''dendrite_group''
   \<and> 3 \<notin> group_members ex_built ''soma_group''
   \<and> 3 \<notin> group_members ex_built ''axon_group''"
proof -
  have run: "parse_tree 1000 ex_n1 ex_n1 (create_cell (init ex_graph)) = Inr ex_built"
    by code_simp
  have mem: "segments_of ex_built ! 3 \<in> set (segments_of ex_built)"
    by code_simp
  have ident: "seg_id (segments_of ex_built ! 3) = 3" by code_simp
  have basal: "map_of (segment_types ex_built) 3 = Some BASAL_DENDRITE" by code_simp
  have dend: "3 \<in> group_members ex_built ''dendrite_group''" by code_simp
  have soma: "3 \<notin> group_members ex_built ''soma_group''" by code_simp
  have axon: "3 \<notin> group_members ex_built ''axon_group''" by code_simp
  from group_coverage [OF run mem] have "3 \<in> group_members ex_built ''all''"
    by (auto simp: ident)
  with run mem ident basal dend soma axon show ?thesis by simp
qed

subsection \<open>A tree without soma\<close>

lemma preorder_unfold: "preorder p = p # concat (map preorder (swc_children p))"
  by (cases p) simp

lemma depth_of_child: "c \<in> set (swc_children p) \<Longrightarrow> depth_of c < depth_of p"
proof -
  have aux: "\<And>cs. c \<in> set cs \<Longrightarrow> depth_of c \<le> foldr max (map depth_of cs) 0"
  proof -
    fix cs show "c \<in> set cs \<Longrightarrow> depth_of c \<le> foldr max (map depth_of cs) 0"
      by (induction cs) auto
  qed
  assume "c \<in> set (swc_children p)"
  from aux [OF this] show ?thesis by (cases p) auto
qed

lemma depth_of_pos: "0 < depth_of p"
  by (cases p) simp

lemma numbered_append:
  "numbered n (xs @ ys) = numbered n xs @ numbered (n + int (length xs)) ys"
  by (induction xs arbitrary: n) (auto simp: algebra_simps)

lemma update_fresh: "k \<notin> fst ` set al \<Longrightarrow> AList.update k v al = al @ [(k, v)]"
  by (induction al) auto

lemma grown_by_nil: "grown_by w [] w"
  by (simp add: grown_by_def)

lemma grown_by_trans:
  assumes "grown_by w ps w1" and "grown_by w1 qs w2"
  shows "grown_by w (ps @ qs) w2"
  using assms by (auto simp: grown_by_def numbered_append)


lemma groups_of_mark [simp]: "groups_of (mark_processed i w) = groups_of w"
  by (simp add: groups_of_def mark_processed_def)

lemma create_segment_grows:
  assumes "tidy w" and "swc_id this_point \<notin> processed_nodes w"
    and "swc_type this_point \<noteq> SOMA"
  shows "\<exists>w'. create_segment this_point parent_point new_branch w = Inr w'
           \<and> tidy w' \<and> grown_by w [this_point] w'"
proof -
  have inv: "builder_inv w" using assms(1) by (simp add: tidy_def)
  let ?n = "next_segment_id w"
  let ?w = "w \<lparr> next_segment_id := ?n + 1 \<rparr>"
  have ready: "writer_ready ?w" using builder_inv_ready [OF inv] by simp
  have "\<And>seg. \<exists>w1. store_segment seg (swc_id this_point) ?n (swc_type this_point) ?w = Inr w1"
    by (rule store_segment_ok [OF ready])
  then obtain w' where run: "create_segment this_point parent_point new_branch w = Inr w'"
    unfolding create_segment_def Let_def by (metis (no_types, lifting) sum.simps(6))
  from run obtain seg w1 where
    st: "store_segment seg (swc_id this_point) ?n (swc_type this_point) ?w = Inr w1"
    and w': "w' = mark_processed (swc_id this_point) w1"
    by (auto simp: create_segment_def Let_def split: sum.splits)
  note facts = store_segment_Inr [OF st]
  have inv': "builder_inv w'" by (rule create_segment_inv [OF inv run])
  have fresh_key: "swc_id this_point \<notin> fst ` set (point_indices_vs_seg_ids w)"
    using assms(1,2) by (auto simp: tidy_def)
  have fresh_id: "?n \<notin> fst ` set (segment_types w)"
    using inv by (simp add: builder_inv_def)
  have table: "point_indices_vs_seg_ids w' = point_indices_vs_seg_ids w @ [(swc_id this_point, ?n)]"
    using facts(2) w' fresh_key by (simp add: mark_processed_def update_fresh)
  have types: "segment_types w' = segment_types w @ [(?n, swc_type this_point)]"
    using facts(3) w' fresh_id by (simp add: mark_processed_def update_fresh)
  have proc: "processed_nodes w' = insert (swc_id this_point) (processed_nodes w)"
    using facts(9) w' by simp
  have nxt: "next_segment_id w' = ?n + 1"
    using facts(8) w' by (simp add: mark_processed_def)
  have grp: "groups_of w' = groups_of w"
    using facts(1) w' by (auto simp: groups_of_def mark_processed_def)
  have "grown_by w [this_point] w'"
    using table types proc nxt grp by (simp add: grown_by_def)
  moreover have "tidy w'"
    using inv' assms(1,3) table types proc by (auto simp: tidy_def)
  ultimately show ?thesis using run by blast
qed

lemma tidy_mark: "tidy w \<Longrightarrow> tidy (mark_processed i w)"
  by (auto simp: tidy_def mark_processed_def builder_inv_mark [unfolded mark_processed_def])

lemma grown_by_mark:
  "i \<in> processed_nodes w' \<Longrightarrow> grown_by w ps (mark_processed i w') = grown_by w ps w'"
  by (auto simp: grown_by_def mark_processed_def groups_of_def insert_absorb)

lemma parse_tree_no_soma:
  assumes closed: "\<forall>p \<in> S. set (swc_children p) \<subseteq> S"
    and nosoma: "\<forall>p \<in> S. swc_type p \<noteq> SOMA"
  shows "tidy w \<Longrightarrow> this_point \<in> S
         \<Longrightarrow> swc_id ` set (preorder this_point) \<inter> processed_nodes w = {}
         \<Longrightarrow> distinct (map swc_id (preorder this_point))
         \<Longrightarrow> depth_of this_point \<le> limit
         \<Longrightarrow> \<exists>w'. parse_tree limit parent_point this_point w = Inr w'
                  \<and> tidy w' \<and> grown_by w (preorder this_point) w'"
    and "tidy w \<Longrightarrow> set cs \<subseteq> S
         \<Longrightarrow> swc_id ` set (concat (map preorder cs)) \<inter> processed_nodes w = {}
         \<Longrightarrow> distinct (map swc_id (concat (map preorder cs)))
         \<Longrightarrow> \<forall>c \<in> set cs. depth_of c \<le> limit
         \<Longrightarrow> \<exists>w'. parse_children limit this_point cs w = Inr w'
                  \<and> tidy w' \<and> grown_by w (concat (map preorder cs)) w'"
proof (induction limit parent_point this_point w and limit this_point cs w
       rule: parse_tree_parse_children.induct)
  case (1 limit parent_point this_point w)
  let ?kids = "concat (map preorder (swc_children this_point))"
  have pre: "preorder this_point = this_point # ?kids" by (rule preorder_unfold)
  have room: "limit \<noteq> 0" using "1.prems"(5) depth_of_pos [of this_point] by simp
  have fresh: "swc_id this_point \<notin> processed_nodes w"
    using "1.prems"(3) pre by auto
  have not_soma: "swc_type this_point \<noteq> SOMA" using nosoma "1.prems"(2) by blast
  from create_segment_grows [OF "1.prems"(1) fresh not_soma] obtain w1 where
    seg: "create_segment this_point parent_point
            (1 < length (swc_children parent_point)
             \<or> swc_type this_point \<noteq> swc_type parent_point) w = Inr w1"
    and tidy1: "tidy w1" and grown1: "grown_by w [this_point] w1"
    by blast
  have in1: "swc_id this_point \<in> processed_nodes w1"
    using grown1 by (simp add: grown_by_def)
  let ?w2 = "mark_processed (swc_id this_point) (mark_processed (swc_id this_point) w1)"
  have step: "(if swc_type this_point = SOMA then handle_soma this_point parent_point w
               else if swc_id this_point \<notin> processed_nodes w then
                 (case create_segment this_point parent_point
                         (1 < length (swc_children parent_point)
                          \<or> swc_type this_point \<noteq> swc_type parent_point) w of
                    Inl e \<Rightarrow> Inl e
                  | Inr w1 \<Rightarrow> Inr (mark_processed (swc_id this_point) w1))
               else Inr w)
              = Inr (mark_processed (swc_id this_point) w1)"
    using not_soma seg fresh by simp
  have unfold: "parse_tree limit parent_point this_point w =
                  parse_children (limit - 1) this_point (swc_children this_point) ?w2"
    using fresh not_soma seg room by (subst parse_tree.simps) (simp add: Let_def)
  have tidy2: "tidy ?w2" using tidy1 by (simp add: tidy_mark)
  have grown2: "grown_by w [this_point] ?w2"
    using grown1 in1 by (simp add: grown_by_mark)
  have proc2: "processed_nodes ?w2 = insert (swc_id this_point) (processed_nodes w)"
    using grown2 by (simp add: grown_by_def)
  have kids_in: "set (swc_children this_point) \<subseteq> S" using closed "1.prems"(2) by blast
  have kids_fresh: "swc_id ` set ?kids \<inter> processed_nodes ?w2 = {}"
    using "1.prems"(3,4) unfolding pre proc2 by auto
  have kids_distinct: "distinct (map swc_id ?kids)"
    using "1.prems"(4) unfolding pre by simp
  have kids_depth: "\<forall>c \<in> set (swc_children this_point). depth_of c \<le> limit - 1"
    using "1.prems"(5) depth_of_child [of _ this_point] by fastforce
  from "1.IH" [OF room fresh refl refl step tidy2 kids_in kids_fresh kids_distinct kids_depth]
  obtain w' where
    rest: "parse_children (limit - 1) this_point (swc_children this_point) ?w2 = Inr w'"
    and tidy': "tidy w'" and grown': "grown_by ?w2 ?kids w'"
    by blast
  have "grown_by w ([this_point] @ ?kids) w'"
    by (rule grown_by_trans [OF grown2 grown'])
  then have "grown_by w (preorder this_point) w'" unfolding pre by simp
  with unfold rest tidy' show ?case by simp
next
  case (2 limit this_point w)
  then show ?case by (simp add: grown_by_nil)
next
  case (3 limit this_point child_point rest w)
  let ?first = "preorder child_point"
  let ?others = "concat (map preorder rest)"
  have split: "concat (map preorder (child_point # rest)) = ?first @ ?others" by simp
  have child_fresh_all: "swc_id ` set ?first \<inter> processed_nodes w = {}"
    using "3.prems"(3) by auto
  have child_fresh: "swc_id child_point \<notin> processed_nodes w"
    using child_fresh_all preorder_unfold [of child_point] by auto
  have child_in: "child_point \<in> S" and rest_in: "set rest \<subseteq> S" using "3.prems"(2) by auto
  have child_distinct: "distinct (map swc_id ?first)" using "3.prems"(4) by simp
  have child_depth: "depth_of child_point \<le> limit" using "3.prems"(5) by simp
  from "3.IH"(1) [OF child_fresh "3.prems"(1) child_in child_fresh_all child_distinct child_depth]
  obtain w1 where
    first: "parse_tree limit this_point child_point w = Inr w1"
    and tidy1: "tidy w1" and grown1: "grown_by w ?first w1"
    by blast
  have proc1: "processed_nodes w1 = processed_nodes w \<union> swc_id ` set ?first"
    using grown1 by (simp add: grown_by_def)
  have rest_fresh: "swc_id ` set ?others \<inter> processed_nodes w1 = {}"
    using "3.prems"(3,4) unfolding proc1 split by auto
  have rest_distinct: "distinct (map swc_id ?others)" using "3.prems"(4) by simp
  have rest_depth: "\<forall>c \<in> set rest. depth_of c \<le> limit" using "3.prems"(5) by simp
  from "3.IH"(2) [OF child_fresh first tidy1 rest_in rest_fresh rest_distinct rest_depth]
  obtain w' where
    more: "parse_children limit this_point rest w1 = Inr w'"
    and tidy': "tidy w'" and grown': "grown_by w1 ?others w'"
    by blast
  have "grown_by w (?first @ ?others) w'" by (rule grown_by_trans [OF grown1 grown'])
  with child_fresh first more tidy' show ?case by simp
qed


lemma build_groups_result:
  assumes "cell w = Some c"
  shows "\<exists>w1 c1. build_groups gs w = Inr w1 \<and> cell w1 = Some c1
           \<and> morph_segment_groups (morphology c1) =
               morph_segment_groups (morphology c) @
                 map (\<lambda>(g, m). \<lparr> group_id = g, members = sorted_list_of_set m \<rparr>)
                     (filter (\<lambda>(g, m). m \<noteq> {}) gs)
           \<and> morph_segments (morphology c1) = morph_segments (morphology c)
           \<and> segment_types w1 = segment_types w"
  using assms
proof (induction gs arbitrary: w c)
  case Nil
  then show ?case by simp
next
  case (Cons entry gs)
  obtain group_name group_members where entry: "entry = (group_name, group_members)"
    by (cases entry)
  show ?case
  proof (cases "group_members = {}")
    case True
    with Cons entry show ?thesis by simp
  next
    case False
    let ?c = "c \<lparr> morphology :=
                  (morphology c) \<lparr> morph_segment_groups :=
                      morph_segment_groups (morphology c) @
                        [\<lparr> group_id = group_name,
                           members = sorted_list_of_set group_members \<rparr>] \<rparr> \<rparr>"
    let ?w = "w \<lparr> cell := Some ?c \<rparr>"
    have "cell ?w = Some ?c" by simp
    from Cons.IH [OF this] obtain w1 c1 where
      "build_groups gs ?w = Inr w1" "cell w1 = Some c1"
      "morph_segment_groups (morphology c1) =
         morph_segment_groups (morphology ?c) @
           map (\<lambda>(g, m). \<lparr> group_id = g, members = sorted_list_of_set m \<rparr>)
               (filter (\<lambda>(g, m). m \<noteq> {}) gs)"
      "morph_segments (morphology c1) = morph_segments (morphology ?c)"
      "segment_types w1 = segment_types ?w"
      by blast
    with False Cons.prems entry show ?thesis by simp
  qed
qed

lemma root_segment_id_no_soma:
  assumes "SOMA \<notin> snd ` set (segment_types w)"
  shows "root_segment_id w = Inl ValueError"
proof -
  have "filter (\<lambda>(sid, seg_type). seg_type = SOMA) (segment_types w) = []"
    using assms by (force simp: filter_empty_conv)
  then show ?thesis by (simp add: root_segment_id_def soma_segment_ids_def)
qed

lemma lower_soma: "lower ''soma'' = ''soma''"
  by code_simp

lemma tidy_start: "tidy (create_cell (init swc_graph))"
  using builder_inv_start [of swc_graph]
  by (simp add: tidy_def) (simp add: create_cell_def init_def Let_def)


text \<open>
  C9 (as the code has it).  Take a graph of at least two nodes, none of them of type soma,
  whose nodes' children are nodes of the graph; let the start point be its first node, the
  ids below the start point be distinct and the tree below it be no deeper than the room
  for nested calls of \<open>parse_tree\<close>.  Then the traversal succeeds and leaves one segment
  for every node below the start point, in the order of the depth-first walk: the segment
  ids count up from 0, the lookup table and \<open>segment_types\<close> pair node after node with
  these ids, all the nodes are marked processed, \<open>all\<close> holds every segment id and
  \<open>soma_group\<close> none.  The group-building loop of \<open>create_segment_groups\<close> succeeds: it
  keeps the segments and appends one group object for every non-empty group.  The search
  for the root segment, which comes before the unbranched groups are derived, raises
  \<open>ValueError\<close> (\<open>min()\<close> of an empty sequence), and with it \<open>create_segment_groups\<close> and
  \<open>nml_string\<close>.
\<close>

theorem no_soma_fails_after_traversal:
  assumes "filter (\<lambda>p. swc_type p = SOMA) (nodes swc_graph) = []"
    and "children_closed swc_graph"
    and "2 \<le> length (nodes swc_graph)"
    and "start_point = hd (nodes swc_graph)"
    and "distinct (map swc_id (preorder start_point))"
    and "depth_of start_point \<le> limit"
  shows "\<exists>w w1 c1.
           find_start_point (create_cell (init swc_graph)) = Inr start_point
           \<and> parse_tree limit start_point start_point (create_cell (init swc_graph)) = Inr w
           \<and> map seg_id (segments_of w) = map int [0 ..< length (preorder start_point)]
           \<and> point_indices_vs_seg_ids w =
               map (\<lambda>(i, p). (swc_id p, i)) (numbered 0 (preorder start_point))
           \<and> segment_types w =
               map (\<lambda>(i, p). (i, swc_type p)) (numbered 0 (preorder start_point))
           \<and> processed_nodes w = swc_id ` set (preorder start_point)
           \<and> group_members w ''all'' = {0 ..< int (length (preorder start_point))}
           \<and> group_members w ''soma_group'' = {}
           \<and> build_groups (segment_groups w) w = Inr w1
           \<and> cell w1 = Some c1
           \<and> morph_segments (morphology c1) = segments_of w
           \<and> morph_segment_groups (morphology c1) =
               map (\<lambda>(g, m). \<lparr> group_id = g, members = sorted_list_of_set m \<rparr>)
                   (filter (\<lambda>(g, m). m \<noteq> {}) (segment_groups w))
           \<and> morph_segment_groups (morphology c1) \<noteq> []
           \<and> root_segment_id w1 = Inl ValueError
           \<and> create_segment_groups unbranched w = Inl ValueError
           \<and> nml_string unbranched write_doc limit (init swc_graph) = Inl ValueError"
proof -
  let ?w0 = "create_cell (init swc_graph)"
  let ?S = "set (nodes swc_graph)"
  let ?ps = "preorder start_point"
  have pts: "points ?w0 = nodes swc_graph" "points (init swc_graph) = nodes swc_graph"
    by (simp_all add: create_cell_def init_def Let_def)
  have empty0: "next_segment_id ?w0 = 0" "point_indices_vs_seg_ids ?w0 = []"
    "segment_types ?w0 = []" "processed_nodes ?w0 = {}" "groups_of ?w0 = []"
    by (simp_all add: create_cell_def init_def Let_def groups_of_def)
  from assms(3,4) obtain rest where nodes_eq: "nodes swc_graph = start_point # rest"
    by (cases "nodes swc_graph") auto
  have start: "find_start_point ?w0 = Inr start_point"
    using assms(1) nodes_eq by (simp add: find_start_point_def pts)
  have in_S: "start_point \<in> ?S" using nodes_eq by simp
  have closed: "\<forall>p \<in> ?S. set (swc_children p) \<subseteq> ?S"
    using assms(2) by (simp add: children_closed_def)
  have nosoma: "\<forall>p \<in> ?S. swc_type p \<noteq> SOMA"
    using assms(1) by (simp add: filter_empty_conv)
  have fresh0: "swc_id ` set ?ps \<inter> processed_nodes ?w0 = {}" by (simp add: empty0)
  from parse_tree_no_soma(1) [OF closed nosoma tidy_start in_S fresh0 assms(5,6),
      of start_point]
  obtain w where run: "parse_tree limit start_point start_point ?w0 = Inr w"
    and tidy: "tidy w" and grown: "grown_by ?w0 ?ps w"
    by blast
  have inv: "builder_inv w" and free: "SOMA \<notin> snd ` set (segment_types w)"
    using tidy by (simp_all add: tidy_def)
  have table: "point_indices_vs_seg_ids w = map (\<lambda>(i, p). (swc_id p, i)) (numbered 0 ?ps)"
    and types: "segment_types w = map (\<lambda>(i, p). (i, swc_type p)) (numbered 0 ?ps)"
    and proc: "processed_nodes w = swc_id ` set ?ps"
    and nxt: "next_segment_id w = int (length ?ps)"
    and grp: "groups_of w = []"
    using grown by (simp_all add: grown_by_def empty0)
  have len: "length (segments_of w) = length ?ps"
    using inv nxt by (simp add: builder_inv_def)
  have ids: "map seg_id (segments_of w) = map int [0 ..< length ?ps]"
    using inv len by (simp add: builder_inv_def)
  have keys: "fst ` set (segment_types w) = {0 ..< int (length ?ps)}"
    using inv nxt by (simp add: builder_inv_def)
  have g_all: "group_members w ''all'' = {0 ..< int (length ?ps)}"
  proof -
    have "group_members w ''all'' = {i. \<exists>t. map_of (segment_types w) i = Some t}"
      by (simp add: builder_inv_members [OF inv] in_groups_for_type(1))
    also have "\<dots> = dom (map_of (segment_types w))"
      by (auto simp: dom_def)
    also have "\<dots> = fst ` set (segment_types w)"
      by (rule dom_map_of_conv_image_fst)
    finally show ?thesis using keys by simp
  qed
  have g_soma: "group_members w ''soma_group'' = {}"
  proof -
    have "\<And>i t. map_of (segment_types w) i = Some t \<Longrightarrow> t \<noteq> SOMA"
      using free by (metis map_of_SomeD snd_conv image_eqI)
    then show ?thesis
      by (auto simp: builder_inv_members [OF inv] in_groups_for_type(2))
  qed
  from inv obtain c where c: "cell w = Some c" by (auto simp: builder_inv_def)
  have c_groups: "morph_segment_groups (morphology c) = []"
    using grp c by (simp add: groups_of_def)
  have c_segs: "morph_segments (morphology c) = segments_of w"
    using c by (simp add: segments_of_def)
  from build_groups_result [OF c, of "segment_groups w"] obtain w1 c1 where
    groups: "build_groups (segment_groups w) w = Inr w1"
    and c1: "cell w1 = Some c1"
    and built: "morph_segment_groups (morphology c1) =
                  map (\<lambda>(g, m). \<lparr> group_id = g, members = sorted_list_of_set m \<rparr>)
                      (filter (\<lambda>(g, m). m \<noteq> {}) (segment_groups w))"
    and segs1: "morph_segments (morphology c1) = segments_of w"
    and types1: "segment_types w1 = segment_types w"
    unfolding c_groups c_segs by auto
  have some: "length ?ps \<noteq> 0" by (simp add: preorder_unfold [of start_point])
  have "map_of (segment_groups w) ''all'' = Some (group_members w ''all'')"
    using inv builder_inv_members [OF inv, of "''all''"]
    by (auto simp: builder_inv_def group_names_def)
  then have mem: "(''all'', {0 ..< int (length ?ps)}) \<in> set (segment_groups w)"
    unfolding g_all by (rule map_of_SomeD)
  have "case (''all'', {0 ..< int (length ?ps)}) of (g, m) \<Rightarrow> m \<noteq> {}"
    using some by simp
  with mem have "\<exists>entry \<in> set (segment_groups w). case entry of (g, m) \<Rightarrow> m \<noteq> {}"
    by blast
  then have "filter (\<lambda>(g, m). m \<noteq> {}) (segment_groups w) \<noteq> []"
    by (simp add: filter_empty_conv)
  then have built_some: "morph_segment_groups (morphology c1) \<noteq> []"
    unfolding built by simp
  have root_fails: "root_segment_id w1 = Inl ValueError"
    using free types1 by (simp add: root_segment_id_no_soma)
  have csg: "create_segment_groups unbranched w = Inl ValueError"
    using groups root_fails by (simp add: create_segment_groups_def)
  have guard: "\<not> (length (points (init swc_graph)) < 2
                   \<or> length (section_types (init swc_graph)) < 2
                   \<or> lower (section_types (init swc_graph) ! 1) \<noteq> ''soma'')"
    using assms(3) by (simp add: pts) (simp add: init_def lower_soma)
  have "nml_string unbranched write_doc limit (init swc_graph) = Inl ValueError"
    unfolding nml_string_def using guard start run csg by (simp add: Let_def)
  with start run ids table types proc g_all g_soma groups c1 segs1 built built_some
    root_fails csg
  show ?thesis by blast
qed

theorem no_soma_fails_after_traversal_witness:
  "filter (\<lambda>p. swc_type p = SOMA) (nodes ax_graph) = []
   \<and> children_closed ax_graph
   \<and> 2 \<le> length (nodes ax_graph)
   \<and> ax_n1 = hd (nodes ax_graph)
   \<and> preorder ax_n1 = [ax_n1, ax_n2, ax_n3, ax_n4, ax_n5, ax_n6]
   \<and> distinct (map swc_id (preorder ax_n1))
   \<and> depth_of ax_n1 \<le> 1000
   \<and> map_sum id (\<lambda>w. (point_indices_vs_seg_ids w, segment_types w))
         (parse_tree 1000 ax_n1 ax_n1 (create_cell (init ax_graph)))
       = Inr ([(1, 0), (2, 1), (3, 2), (4, 3), (5, 4), (6, 5)],
              [(0, 2), (1, 2), (2, 2), (3, 2), (4, 2), (5, 2)])
   \<and> map_sum id (\<lambda>w. map_sum id groups_of (build_groups (segment_groups w) w))
         (parse_tree 1000 ax_n1 ax_n1 (create_cell (init ax_graph)))
       = Inr (Inr [\<lparr> group_id = ''all'', members = [0, 1, 2, 3, 4, 5] \<rparr>,
                   \<lparr> group_id = ''axon_group'', members = [0, 1, 2, 3, 4, 5] \<rparr>])
   \<and> nml_string (\<lambda>c r. Inr c) (\<lambda>d. ''doc'') 1000 (init ax_graph) = Inl ValueError"
proof -
  have none: "filter (\<lambda>p. swc_type p = SOMA) (nodes ax_graph) = []" by code_simp
  have closed: "children_closed ax_graph" by code_simp
  have two: "2 \<le> length (nodes ax_graph)" by code_simp
  have first: "ax_n1 = hd (nodes ax_graph)" by code_simp
  have walk: "preorder ax_n1 = [ax_n1, ax_n2, ax_n3, ax_n4, ax_n5, ax_n6]" by code_simp
  have ids: "distinct (map swc_id (preorder ax_n1))" by code_simp
  have depth: "depth_of ax_n1 \<le> 1000" by code_simp
  have built: "map_sum id (\<lambda>w. (point_indices_vs_seg_ids w, segment_types w))
         (parse_tree 1000 ax_n1 ax_n1 (create_cell (init ax_graph)))
       = Inr ([(1, 0), (2, 1), (3, 2), (4, 3), (5, 4), (6, 5)],
              [(0, 2), (1, 2), (2, 2), (3, 2), (4, 2), (5, 2)])"
    by code_simp
  have grouped: "map_sum id (\<lambda>w. map_sum id groups_of (build_groups (segment_groups w) w))
         (parse_tree 1000 ax_n1 ax_n1 (create_cell (init ax_graph)))
       = Inr (Inr [\<lparr> group_id = ''all'', members = [0, 1, 2, 3, 4, 5] \<rparr>,
                   \<lparr> group_id = ''axon_group'', members = [0, 1, 2, 3, 4, 5] \<rparr>])"
    by code_simp
  from no_soma_fails_after_traversal [OF none closed two first ids depth,
      of "\<lambda>c r. Inr c" "\<lambda>d. ''doc''"]
  have "nml_string (\<lambda>c r. Inr c) (\<lambda>d. ''doc'') 1000 (init ax_graph) = Inl ValueError"
    by blast
  with none closed two first walk ids depth built grouped show ?thesis by simp
qed

text \<open>
  C9 as stated fails on two kinds of tree without soma.  On a graph of a single point,
  \<open>nml_string\<close> returns the empty string before anything is traversed, and nothing is
  raised.  On a tree deeper than the room for nested calls (here the six axon points, three
  levels deep, with room for two) the traversal raises \<open>RecursionError\<close> and the derivation
  step is not reached.
\<close>

theorem no_soma_counterexample:
  "filter (\<lambda>p. swc_type p = SOMA) (nodes one_graph) = []
   \<and> nml_string (\<lambda>c r. Inr c) (\<lambda>d. ''doc'') 1000 (init one_graph)
       = Inr ([], init one_graph)
   \<and> filter (\<lambda>p. swc_type p = SOMA) (nodes ax_graph) = []
   \<and> depth_of ax_n1 = 3
   \<and> nml_string (\<lambda>c r. Inr c) (\<lambda>d. ''doc'') 2 (init ax_graph) = Inl RecursionError"
  by code_simp


subsection \<open>The lookup table after a three-point soma\<close>

text \<open>
  C6 on the three-point soma with a dendrite on node 2.  After the whole traversal the
  lookup table maps the soma nodes 1 and 3 and the dendrite node 4, but not the soma
  node 2: \<open>handle_soma\<close> stores an entry for \<open>this_point\<close> and for \<open>end_point\<close>, none for
  \<open>middle_point\<close>.  The segment of node 4, whose parent point is node 2, is left without
  a parent.
\<close>

theorem three_point_soma_middle_unmapped:
  "find_start_point (create_cell (init mid_graph)) = Inr mid_n1
   \<and> soma_points_of (create_cell (init mid_graph)) = [mid_n1, mid_n2, mid_n3]
   \<and> swc_parent_id mid_n4 = int (swc_id mid_n2)
   \<and> map_sum id point_indices_vs_seg_ids
         (parse_tree 1000 mid_n1 mid_n1 (create_cell (init mid_graph)))
       = Inr [(1, 0), (3, 1), (4, 2)]
   \<and> map_sum id (\<lambda>w. map_of (point_indices_vs_seg_ids w) (swc_id mid_n2))
         (parse_tree 1000 mid_n1 mid_n1 (create_cell (init mid_graph)))
       = Inr None
   \<and> map_sum id (\<lambda>w. map (map_option segments \<circ> seg_parent) (segments_of w))
         (parse_tree 1000 mid_n1 mid_n1 (create_cell (init mid_graph)))
       = Inr [None, Some 0, None]"
  by code_simp

section \<open>Properties of the exporter\<close>

subsection \<open>The line of the parent\<close>

text \<open>
  What \<open>parent_line_of\<close> does with the attachment fraction: within \<open>0.0001\<close> of 1 it
  looks up the parent's distal line; at exactly 0 it looks up the parent's proximal line;
  anywhere else it raises.
\<close>

lemma parent_line_of_cases:
  assumes "seg_parent segment = Some p"
  shows "\<bar>fraction_along p - 1\<bar> < 1 / 10000 \<Longrightarrow>
           parent_line_of segment st =
             (case map_of (line_index_vs_distals st) (segments p) of
                None \<Rightarrow> Inl KeyError | Some l \<Rightarrow> Inr l)"
    and "fraction_along p = 0 \<Longrightarrow>
           parent_line_of segment st =
             (case map_of (line_index_vs_proximals st) (segments p) of
                None \<Rightarrow> Inl KeyError | Some l \<Rightarrow> Inr l)"
    and "\<not> \<bar>fraction_along p - 1\<bar> < 1 / 10000 \<Longrightarrow> fraction_along p \<noteq> 0 \<Longrightarrow>
           parent_line_of segment st = Inl NotConnectedToEndException"
  using assms by (auto simp: parent_line_of_def Let_def)

text \<open>
  C7 at the fraction \<open>0.00005\<close>, which is within \<open>0.0001\<close> of 0.  The parent segment 0
  has been written with a proximal line (line 1) and a distal line (line 2), and the export
  of the child raises the exception of \<open>_get_lines_for_seg_group\<close> all the same: the test
  for 0 reads \<open>segment.parent.fraction_along\<close>, not the rounded \<open>fract\<close>.
\<close>

theorem convert_to_swc_fraction_near_zero:
  "\<bar>5 / 100000 - 0\<bar> < (1 / 10000 :: real)
   \<and> map_sum id (\<lambda>(ls, st). (map ln_index ls, line_index_vs_proximals st, line_index_vs_distals st))
         (lines_for_segment 1 exp_soma
            \<lparr> line_count = 1, line_index_vs_distals = [], line_index_vs_proximals = [] \<rparr>)
       = Inr ([1, 2], [(0, 1)], [(0, 2)])
   \<and> parent_line_of (exp_dend (5 / 100000))
         \<lparr> line_count = 3, line_index_vs_distals = [(0, 2)], line_index_vs_proximals = [(0, 1)] \<rparr>
       = Inl NotConnectedToEndException
   \<and> get_ordered_segments_in_groups (exp_cell ''c'' [exp_soma, exp_dend (5 / 100000)])
         [''dendrite_group'']
       = Inr [(''dendrite_group'', [exp_dend (5 / 100000)])]
   \<and> convert_to_swc get_ordered_segments_in_groups ''out''
         (exp_doc [exp_cell ''c'' [exp_soma, exp_dend (5 / 100000)]]) []
       = ([(''out/c.swc'', [])], Some NotConnectedToEndException)
   \<and> parent_line_of (exp_dend 0)
         \<lparr> line_count = 3, line_index_vs_distals = [(0, 2)], line_index_vs_proximals = [(0, 1)] \<rparr>
       = Inr 1"
  by code_simp

subsection \<open>The count of the segments\<close>

text \<open>
  C8 (as the code has it).  The export takes the cells of the document one after the
  other; \<open>st\<close>, \<open>lines\<close> and \<open>fs\<close> are the counters, the line list and the files as the cells
  before \<open>c\<close> have left them.  When the three groups \<open>soma_group\<close>, \<open>dendrite_group\<close>,
  \<open>axon_group\<close> of \<open>c\<close> have been walked in this order with the types 1, 3, 2:
  if the numbers of segments visited do not add up to the number of segments of \<open>c\<close>, the
  export raises the exception of \<open>convert_to_swc\<close>; the file of \<open>c\<close>, opened before, holds
  no line, and the other files are as the earlier cells left them.  Otherwise the line list,
  which now ends with all the lines of \<open>c\<close>, is written to the file of \<open>c\<close> and the export
  goes on with the cells after \<open>c\<close>.
\<close>

theorem convert_cells_segment_count:
  assumes "get_lines_for_seg_group ordered c ''soma_group'' 1 st = Inr (lines_soma, ids_soma, st1)"
    and "get_lines_for_seg_group ordered c ''dendrite_group'' 3 st1
         = Inr (lines_dend, ids_dend, st2)"
    and "get_lines_for_seg_group ordered c ''axon_group'' 2 st2
         = Inr (lines_axon, ids_axon, st3)"
  shows "(length (morph_segments (morphology c))
            \<noteq> length ids_soma + length ids_dend + length ids_axon \<longrightarrow>
          convert_cells ordered base_dir (c # cs) st lines fs =
            (AList.update (base_dir @ ''/'' @ cell_id c @ ''.swc'') [] fs,
             Some SegmentCountException))
       \<and> (length (morph_segments (morphology c))
            = length ids_soma + length ids_dend + length ids_axon \<longrightarrow>
          convert_cells ordered base_dir (c # cs) st lines fs =
            convert_cells ordered base_dir cs st3
              (lines @ lines_soma @ lines_dend @ lines_axon)
              (AList.update (base_dir @ ''/'' @ cell_id c @ ''.swc'')
                 (lines @ lines_soma @ lines_dend @ lines_axon)
                 (AList.update (base_dir @ ''/'' @ cell_id c @ ''.swc'') [] fs)))"
  using assms by (simp add: convert_cell_def Let_def)

theorem convert_cells_segment_count_witness:
  "convert_to_swc get_ordered_segments_in_groups ''out''
     (exp_doc [exp_cell ''b'' [exp_soma, exp_dend 1, exp_undefined]]) []
     = ([(''out/b.swc'', [])], Some SegmentCountException)
   \<and> convert_to_swc get_ordered_segments_in_groups ''out''
       (exp_doc [exp_cell ''a'' [exp_soma, exp_dend 1]]) []
     = ([(''out/a.swc'',
          [\<lparr> ln_index = 1, ln_type = 1, ln_x = 0, ln_y = 0, ln_z = 0, ln_r = 10,
             ln_parent = - 1, ln_comment = [] \<rparr>,
           \<lparr> ln_index = 2, ln_type = 1, ln_x = 10, ln_y = 0, ln_z = 0, ln_r = 10,
             ln_parent = 1, ln_comment = [] \<rparr>,
           \<lparr> ln_index = 3, ln_type = 3, ln_x = 20, ln_y = 0, ln_z = 0, ln_r = 2,
             ln_parent = 2, ln_comment = [] \<rparr>])], None)"
proof -
  let ?G = "get_ordered_segments_in_groups"
  let ?st0 = "\<lparr> line_count = 1, line_index_vs_distals = [], line_index_vs_proximals = [] \<rparr>"
  let ?st1 = "\<lparr> line_count = 3, line_index_vs_distals = [(0, 2)],
                line_index_vs_proximals = [(0, 1)] \<rparr>"
  let ?st2 = "\<lparr> line_count = 4, line_index_vs_distals = [(0, 2), (1, 3)],
                line_index_vs_proximals = [(0, 1)] \<rparr>"
  let ?l1 = "[\<lparr> ln_index = 1, ln_type = 1, ln_x = 0, ln_y = 0, ln_z = 0, ln_r = 10,
                ln_parent = - 1, ln_comment = [] \<rparr>,
              \<lparr> ln_index = 2, ln_type = 1, ln_x = 10, ln_y = 0, ln_z = 0, ln_r = 10,
                ln_parent = 1, ln_comment = [] \<rparr>]"
  let ?l2 = "[\<lparr> ln_index = 3, ln_type = 3, ln_x = 20, ln_y = 0, ln_z = 0, ln_r = 2,
                ln_parent = 2, ln_comment = [] \<rparr>]"
  let ?gap = "exp_cell ''b'' [exp_soma, exp_dend 1, exp_undefined]"
  let ?full = "exp_cell ''a'' [exp_soma, exp_dend 1]"
  have gap1: "get_lines_for_seg_group ?G ?gap ''soma_group'' 1 ?st0 = Inr (?l1, [0], ?st1)"
    by code_simp
  have gap2: "get_lines_for_seg_group ?G ?gap ''dendrite_group'' 3 ?st1 = Inr (?l2, [1], ?st2)"
    by code_simp
  have gap3: "get_lines_for_seg_group ?G ?gap ''axon_group'' 2 ?st2 = Inr ([], [], ?st2)"
    by code_simp
  have gap_count: "length (morph_segments (morphology ?gap))
                     \<noteq> length [0::int] + length [1::int] + length ([]::int list)"
    by (simp add: exp_cell_def)
  have full1: "get_lines_for_seg_group ?G ?full ''soma_group'' 1 ?st0 = Inr (?l1, [0], ?st1)"
    by code_simp
  have full2: "get_lines_for_seg_group ?G ?full ''dendrite_group'' 3 ?st1 = Inr (?l2, [1], ?st2)"
    by code_simp
  have full3: "get_lines_for_seg_group ?G ?full ''axon_group'' 2 ?st2 = Inr ([], [], ?st2)"
    by code_simp
  have full_count: "length (morph_segments (morphology ?full))
                      = length [0::int] + length [1::int] + length ([]::int list)"
    by (simp add: exp_cell_def)
  have name: "cell_id ?gap = ''b''" "cell_id ?full = ''a''" by (simp_all add: exp_cell_def)
  from convert_cells_segment_count [OF gap1 gap2 gap3, of "''out''" "[]" "[]" "[]"] gap_count
  have a: "convert_to_swc ?G ''out'' (exp_doc [?gap]) []
           = ([(''out/b.swc'', [])], Some SegmentCountException)"
    by (simp add: name convert_to_swc_def exp_doc_def)
  from convert_cells_segment_count [OF full1 full2 full3, of "''out''" "[]" "[]" "[]"] full_count
  have b: "convert_to_swc ?G ''out'' (exp_doc [?full]) []
           = ([(''out/a.swc'', ?l1 @ ?l2)], None)"
    by (simp add: name convert_to_swc_def exp_doc_def)
  show ?thesis unfolding a b by simp
qed

text \<open>
  C8 as stated fails on a document of two cells, the first complete and the second with
  a segment outside the three groups: the export raises the exception of the count after
  the three lines of the first cell have been written to its file.
\<close>

theorem convert_to_swc_two_cells_counterexample:
  "map_prod (map (map_prod id (map ln_index))) id
     (convert_to_swc get_ordered_segments_in_groups ''out''
        (exp_doc [exp_cell ''a'' [exp_soma, exp_dend 1],
                  exp_cell ''b'' [exp_soma, exp_dend 1, exp_undefined]]) [])
   = ([(''out/a.swc'', [1, 2, 3]), (''out/b.swc'', [])], Some SegmentCountException)"
  by code_simp

end
